theory Spec2Isabelle
  imports Complex_Main "HOL-Library.AList"
begin

section \<open>Data model\<close>

text \<open>
  The three scripts \<^verbatim>\<open>whisper_simple.py\<close>, \<^verbatim>\<open>whisperx_processor.py\<close> and
  \<^verbatim>\<open>whisperx_service.py\<close> reshape the dictionaries returned by the speech libraries.
  A Python dictionary with a fixed set of possible keys is a record whose fields are
  \<open>option\<close>s where the key may be missing; Python floats are idealised as \<open>real\<close>;
  a Python \<open>dict\<close> used as an insertion-ordered table is an association list.
\<close>

text \<open>Exceptions: a missing dictionary key, or an exception raised inside one of the
  external library calls (carrying its message).\<close>

datatype error = KeyError string | External string

text \<open>\<^verbatim>\<open>str(e)\<close>: a \<^verbatim>\<open>KeyError\<close> prints the repr of its key, in single quotes.\<close>

fun str_error :: "error \<Rightarrow> string" where
  "str_error (KeyError k) = CHR 0x27 # k @ [CHR 0x27]"
| "str_error (External msg) = msg"

text \<open>A word dictionary as the libraries return it.\<close>

record raw_word =
  rw_word :: "string option"
  rw_start :: "real option"
  rw_end :: "real option"
  rw_probability :: "real option"
  rw_confidence :: "real option"
  rw_score :: "real option"
  rw_speaker :: "string option"

text \<open>A segment dictionary as the libraries return it.\<close>

record raw_segment =
  rs_start :: "real option"
  rs_end :: "real option"
  rs_text :: "string option"
  rs_score :: "real option"
  rs_confidence :: "real option"
  rs_words :: "raw_word list option"
  rs_speaker :: "string option"

text \<open>The dictionary returned by \<^verbatim>\<open>model.transcribe\<close>, \<^verbatim>\<open>whisperx.align\<close> and
  \<^verbatim>\<open>whisperx.assign_word_speakers\<close>.\<close>

record raw_result =
  res_language :: "string option"
  res_segments :: "raw_segment list option"

text \<open>The word dictionaries the scripts build.\<close>

record word =
  w_word :: string
  w_start :: real
  w_end :: real
  w_confidence :: real

text \<open>The \<^verbatim>\<open>"words"\<close> entry of an output segment: missing, a list of built word records
  (\<^verbatim>\<open>whisper_simple\<close>, \<^verbatim>\<open>whisperx_service\<close>), or the library's own list handed on
  as it is (\<^verbatim>\<open>whisperx_processor\<close>).\<close>

datatype words_entry = No_words | Word_records "word list" | Raw_words "raw_word list"

record segment =
  seg_id :: "nat option"
  seg_start :: real
  seg_end :: real
  seg_text :: string
  seg_confidence :: real
  seg_speaker :: "string option"
  seg_words :: words_entry

text \<open>An entry of \<^verbatim>\<open>speaker_stats\<close>: keys \<^verbatim>\<open>"id"\<close>, \<^verbatim>\<open>"segments"\<close>,
  \<^verbatim>\<open>"total_duration"\<close>.\<close>

record speaker_stat =
  st_id :: string
  st_segments :: nat
  st_total_duration :: real

text \<open>The output document. \<^verbatim>\<open>"speakers"\<close> and \<^verbatim>\<open>"confidence"\<close> are keys that only some
  of the scripts set.\<close>

record document =
  language :: string
  segments :: "segment list"
  speakers :: "speaker_stat list option"
  confidence :: "real option"

section \<open>Python helpers\<close>

text \<open>\<^verbatim>\<open>str.strip()\<close> removes leading and trailing whitespace. A \<open>char\<close> is a code
  point below 256; among these \<^verbatim>\<open>str.isspace\<close> holds for 9 to 13, 28 to 32, 133
  (U+0085) and 160 (U+00A0). The Unicode spaces above U+00FF are outside the type.\<close>

definition is_space :: "char \<Rightarrow> bool" where
  "is_space c = ((of_char c :: nat) \<in> {9, 10, 11, 12, 13, 28, 29, 30, 31, 32, 133, 160})"

definition strip :: "string \<Rightarrow> string" where
  "strip s = rev (dropWhile is_space (rev (dropWhile is_space s)))"

text \<open>\<^verbatim>\<open>d[key]\<close>: the value, or \<^verbatim>\<open>KeyError\<close>.\<close>

definition getitem :: "string \<Rightarrow> 'a option \<Rightarrow> error + 'a" where
  "getitem key v = (case v of None \<Rightarrow> Inl (KeyError key) | Some x \<Rightarrow> Inr x)"

text \<open>\<^verbatim>\<open>d.get(key, default)\<close>.\<close>

definition get_default :: "'a option \<Rightarrow> 'a \<Rightarrow> 'a" where
  "get_default v d = (case v of None \<Rightarrow> d | Some x \<Rightarrow> x)"

text \<open>Sequencing of statements that may raise.\<close>

definition then_do :: "error + 'a \<Rightarrow> ('a \<Rightarrow> error + 'b) \<Rightarrow> error + 'b" where
  "then_do m f = (case m of Inl e \<Rightarrow> Inl e | Inr x \<Rightarrow> f x)"

section \<open>whisper\_simple.py: the formatting block of \<open>SimpleWhisperTranscriber.transcribe\<close>\<close>

text \<open>Lines 73 to 81: the list comprehension over \<^verbatim>\<open>segment["words"]\<close>.\<close>

definition simple_word :: "raw_word \<Rightarrow> word" where
  "simple_word w =
     \<lparr>w_word = get_default (rw_word w) [],
      w_start = get_default (rw_start w) 0,
      w_end = get_default (rw_end w) 0,
      w_confidence = get_default (rw_probability w) 1\<rparr>"

text \<open>Lines 64 to 81: \<^verbatim>\<open>seg_data\<close> for one segment.\<close>

definition simple_seg_data :: "raw_segment \<Rightarrow> error + segment" where
  "simple_seg_data s =
     then_do (getitem ''start'' (rs_start s)) (\<lambda>st.
     then_do (getitem ''end'' (rs_end s)) (\<lambda>en.
     then_do (getitem ''text'' (rs_text s)) (\<lambda>tx.
       Inr \<lparr>seg_id = None, seg_start = st, seg_end = en, seg_text = strip tx,
            seg_confidence = 1, seg_speaker = None,
            seg_words = (case rs_words s of None \<Rightarrow> No_words
                         | Some ws \<Rightarrow> Word_records (map simple_word ws))\<rparr>)))"

text \<open>Lines 63 to 83: the loop, appending to \<^verbatim>\<open>output["segments"]\<close>.\<close>

fun simple_loop :: "raw_segment list \<Rightarrow> segment list \<Rightarrow> error + segment list" where
  "simple_loop [] out = Inr out"
| "simple_loop (s # ss) out =
     then_do (simple_seg_data s) (\<lambda>d. simple_loop ss (out @ [d]))"

text \<open>Lines 52 to 85, from the result of \<^verbatim>\<open>self.model.transcribe\<close>.\<close>

definition simple_format :: "raw_result \<Rightarrow> error + document" where
  "simple_format result =
     (let detected_language = get_default (res_language result) ''unknown''
      in then_do (simple_loop (get_default (res_segments result) []) []) (\<lambda>segs.
           Inr \<lparr>language = detected_language, segments = segs,
                speakers = Some [], confidence = None\<rparr>))"

section \<open>whisperx\_processor.py: the formatting block of \<open>transcribe_audio\<close>\<close>

text \<open>Lines 101 to 108: the dictionary appended for one segment; \<open>n\<close> is
  \<^verbatim>\<open>len(transcription["segments"])\<close> at that moment.\<close>

definition processor_seg_data :: "nat \<Rightarrow> raw_segment \<Rightarrow> error + segment" where
  "processor_seg_data n s =
     then_do (getitem ''start'' (rs_start s)) (\<lambda>st.
     then_do (getitem ''end'' (rs_end s)) (\<lambda>en.
     then_do (getitem ''text'' (rs_text s)) (\<lambda>tx.
       Inr \<lparr>seg_id = Some n, seg_start = st, seg_end = en, seg_text = strip tx,
            seg_confidence = get_default (rs_score s) 0, seg_speaker = None,
            seg_words = Raw_words (get_default (rs_words s) [])\<rparr>)))"

fun processor_loop :: "raw_segment list \<Rightarrow> segment list \<Rightarrow> error + segment list" where
  "processor_loop [] out = Inr out"
| "processor_loop (s # ss) out =
     then_do (processor_seg_data (length out) s) (\<lambda>d. processor_loop ss (out @ [d]))"

text \<open>Lines 110 to 115.\<close>

definition overall_confidence :: "segment list \<Rightarrow> real" where
  "overall_confidence segs =
     (if segs \<noteq> [] then sum_list (map seg_confidence segs) / real (length segs) else 0)"

text \<open>Lines 95 to 115, from the result of \<^verbatim>\<open>whisperx.align\<close>.\<close>

definition processor_format :: "raw_result \<Rightarrow> error + document" where
  "processor_format result =
     (let lang = get_default (res_language result) ''unknown''
      in then_do (getitem ''segments'' (res_segments result)) (\<lambda>raw.
         then_do (processor_loop raw []) (\<lambda>segs.
           Inr \<lparr>language = lang, segments = segs, speakers = None,
                confidence = Some (overall_confidence segs)\<rparr>)))"

section \<open>whisperx\_service.py: the formatting block of \<open>WhisperXTranscriber.transcribe\<close>\<close>

type_synonym speaker_stats = "(string \<times> speaker_stat) list"

text \<open>Lines 148 to 153.\<close>

definition service_seg_data :: "raw_segment \<Rightarrow> error + segment" where
  "service_seg_data s =
     then_do (getitem ''start'' (rs_start s)) (\<lambda>st.
     then_do (getitem ''end'' (rs_end s)) (\<lambda>en.
     then_do (getitem ''text'' (rs_text s)) (\<lambda>tx.
       Inr \<lparr>seg_id = None, seg_start = st, seg_end = en, seg_text = strip tx,
            seg_confidence = get_default (rs_confidence s) 1, seg_speaker = None,
            seg_words = No_words\<rparr>)))"

text \<open>Lines 161 to 168: the entry is created with zero counts when the id is new (a new
  key goes to the end of the dictionary), then both counters are updated in place.\<close>

definition track_speaker :: "string \<Rightarrow> real \<Rightarrow> speaker_stats \<Rightarrow> speaker_stats" where
  "track_speaker speaker_id dur stats =
     (let stats1 = (case map_of stats speaker_id of
                      None \<Rightarrow> AList.update speaker_id
                                \<lparr>st_id = speaker_id, st_segments = 0, st_total_duration = 0\<rparr> stats
                    | Some _ \<Rightarrow> stats);
          stats2 = AList.map_entry speaker_id
                     (\<lambda>e. e\<lparr>st_segments := st_segments e + 1\<rparr>) stats1
      in AList.map_entry speaker_id
           (\<lambda>e. e\<lparr>st_total_duration := st_total_duration e + dur\<rparr>) stats2)"

text \<open>Lines 156 to 168.\<close>

definition service_add_speaker ::
    "raw_segment \<Rightarrow> segment \<Rightarrow> speaker_stats \<Rightarrow> segment \<times> speaker_stats" where
  "service_add_speaker s seg_data stats =
     (case rs_speaker s of
        None \<Rightarrow> (seg_data, stats)
      | Some speaker_id \<Rightarrow>
          (seg_data\<lparr>seg_speaker := Some speaker_id\<rparr>,
           track_speaker speaker_id (seg_end seg_data - seg_start seg_data) stats))"

text \<open>Lines 173 to 178: one word; \<^verbatim>\<open>word["word"]\<close>, \<^verbatim>\<open>word["start"]\<close> and
  \<^verbatim>\<open>word["end"]\<close> raise when the key is missing.\<close>

definition service_word :: "raw_word \<Rightarrow> error + word" where
  "service_word w =
     then_do (getitem ''word'' (rw_word w)) (\<lambda>wd.
     then_do (getitem ''start'' (rw_start w)) (\<lambda>st.
     then_do (getitem ''end'' (rw_end w)) (\<lambda>en.
       Inr \<lparr>w_word = wd, w_start = st, w_end = en,
            w_confidence = get_default (rw_confidence w) 1\<rparr>)))"

fun service_words :: "raw_word list \<Rightarrow> error + word list" where
  "service_words [] = Inr []"
| "service_words (w # ws) =
     then_do (service_word w) (\<lambda>x. then_do (service_words ws) (\<lambda>xs. Inr (x # xs)))"

text \<open>Lines 171 to 180.\<close>

definition service_add_words :: "raw_segment \<Rightarrow> segment \<Rightarrow> error + segment" where
  "service_add_words s seg_data =
     (case rs_words s of
        None \<Rightarrow> Inr seg_data
      | Some ws \<Rightarrow> then_do (service_words ws) (\<lambda>xs. Inr (seg_data\<lparr>seg_words := Word_records xs\<rparr>)))"

text \<open>Lines 147 to 182: the loop over \<^verbatim>\<open>result["segments"]\<close>, with the two pieces of state
  it updates, \<^verbatim>\<open>output["segments"]\<close> and \<^verbatim>\<open>speaker_stats\<close>.\<close>

fun service_loop ::
    "raw_segment list \<Rightarrow> segment list \<Rightarrow> speaker_stats \<Rightarrow> error + segment list \<times> speaker_stats" where
  "service_loop [] out stats = Inr (out, stats)"
| "service_loop (s # ss) out stats =
     then_do (service_seg_data s) (\<lambda>d0.
       (case service_add_speaker s d0 stats of (d1, stats') \<Rightarrow>
          then_do (service_add_words s d1) (\<lambda>d2. service_loop ss (out @ [d2]) stats')))"

text \<open>Lines 139 to 185, from \<^verbatim>\<open>detected_language\<close> and the result of the alignment (or of
  \<^verbatim>\<open>assign_word_speakers\<close>). \<^verbatim>\<open>list(speaker_stats.values())\<close> lists the entries in
  insertion order.\<close>

definition service_format :: "string \<Rightarrow> raw_result \<Rightarrow> error + document" where
  "service_format detected_language result =
     then_do (getitem ''segments'' (res_segments result)) (\<lambda>raw.
     then_do (service_loop raw [] []) (\<lambda>(segs, stats).
       Inr \<lparr>language = detected_language, segments = segs,
            speakers = Some (map snd stats), confidence = None\<rparr>))"

section \<open>The external libraries and the command-line programs\<close>

text \<open>
  The calls into \<^verbatim>\<open>whisper\<close>, \<^verbatim>\<open>whisperx\<close>, \<^verbatim>\<open>torch\<close> and the environment are
  parameters of the model: each either raises or returns. Model and pipeline handles are
  opaque, so a load returns \<open>()\<close>, and the outcome of a later call is a function of the
  arguments that are data. An audio buffer is its list of samples; the result of the
  diarization pipeline is a list of speaker turns.
\<close>

type_synonym audio = "real list"
type_synonym diarization = "(real \<times> real \<times> string) list"

record capabilities =
  cuda_available :: bool
  hf_token_env :: "string option"
  whisper_load_model :: "string \<Rightarrow> error + unit"
  whisper_transcribe :: "string \<Rightarrow> string option \<Rightarrow> error + raw_result"
  load_model :: "string \<Rightarrow> string \<Rightarrow> string \<Rightarrow> string option \<Rightarrow> error + unit"
  load_audio :: "string \<Rightarrow> error + audio"
  model_transcribe :: "audio \<Rightarrow> nat \<Rightarrow> string option \<Rightarrow> error + raw_result"
  load_align_model :: "string \<Rightarrow> string \<Rightarrow> error + unit"
  align :: "raw_segment list \<Rightarrow> audio \<Rightarrow> string \<Rightarrow> error + raw_result"
  diarization_pipeline :: "string \<Rightarrow> string \<Rightarrow> error + unit"
  diarize :: "audio \<Rightarrow> int option \<Rightarrow> int option \<Rightarrow> error + diarization"
  assign_word_speakers :: "diarization \<Rightarrow> raw_result \<Rightarrow> error + raw_result"

text \<open>
  What a run leaves behind: what it printed on standard output, its exit status, the
  document written to the output file (if it was written), and the lines that
  \<^verbatim>\<open>load_diarization_model\<close> printed on standard error. The progress and log lines on
  standard error are not modelled, nor is a failure of the file system while the output
  file is written.
\<close>

datatype stdout_item =
    Json_line document
  | Json_indented document
  | Json_error_line string
  | Text_line string
  | Segments_line nat
  | Confidence_line real

record run =
  stdout :: "stdout_item list"
  exit_code :: nat
  out_file :: "document option"
  diarization_messages :: "string list"

text \<open>An exception that reaches the top of the program: Python prints the traceback on
  standard error and exits with status 1.\<close>

definition uncaught :: "string list \<Rightarrow> run" where
  "uncaught msgs = \<lparr>stdout = [], exit_code = 1, out_file = None, diarization_messages = msgs\<rparr>"

subsection \<open>whisper\_simple.py\<close>

record simple_args =
  sa_input :: string
  sa_output :: "string option"
  sa_model :: string
  sa_language :: "string option"
  sa_device :: string
  sa_no_diarization :: bool
  sa_min_speakers :: "int option"
  sa_max_speakers :: "int option"
  sa_hf_token :: "string option"

text \<open>\<^verbatim>\<open>SimpleWhisperTranscriber.__init__\<close>.\<close>

definition simple_init :: "capabilities \<Rightarrow> string \<Rightarrow> error + unit" where
  "simple_init caps model_size = whisper_load_model caps model_size"

text \<open>\<^verbatim>\<open>SimpleWhisperTranscriber.transcribe\<close>.\<close>

definition simple_transcribe :: "capabilities \<Rightarrow> string \<Rightarrow> string option \<Rightarrow> error + document" where
  "simple_transcribe caps audio_path lang =
     then_do (whisper_transcribe caps audio_path lang) simple_format"

text \<open>\<^verbatim>\<open>SimpleWhisperTranscriber.process_file\<close>: the returned flag, what was printed on
  standard output, and the file.\<close>

definition simple_process_file ::
    "capabilities \<Rightarrow> string \<Rightarrow> string option \<Rightarrow> bool \<times> stdout_item list \<times> document option" where
  "simple_process_file caps input_path lang =
     (case simple_transcribe caps input_path lang of
        Inr result \<Rightarrow> (True, [Json_line result], Some result)
      | Inl e \<Rightarrow> (False, [Json_error_line (str_error e)], None))"

text \<open>\<^verbatim>\<open>main\<close> of \<^verbatim>\<open>whisper_simple.py\<close>, from the parsed arguments.\<close>

definition simple_main :: "capabilities \<Rightarrow> simple_args \<Rightarrow> run" where
  "simple_main caps args =
     (case simple_init caps (sa_model args) of
        Inl e \<Rightarrow> uncaught []
      | Inr transcriber \<Rightarrow>
          (case simple_process_file caps (sa_input args) (sa_language args) of
             (success, printed, file) \<Rightarrow>
               \<lparr>stdout = printed, exit_code = (if success then 0 else 1), out_file = file,
                diarization_messages = []\<rparr>))"

subsection \<open>whisperx\_processor.py\<close>


text \<open>\<^verbatim>\<open>transcribe_audio\<close>: the returned dictionary and the file it saved, or the exception
  (which the \<^verbatim>\<open>except\<close> clause logs and raises again).\<close>

definition transcribe_audio ::
    "capabilities \<Rightarrow> string \<Rightarrow> string \<Rightarrow> string option \<Rightarrow> string \<Rightarrow> string \<Rightarrow> nat \<Rightarrow> string option
       \<Rightarrow> error + document \<times> document option" where
  "transcribe_audio caps audio_path model_size lang device0 compute_type0 batch_size output_dir =
     (let (device, compute_type) =
            (if device0 = ''cuda'' \<and> \<not> cuda_available caps then (''cpu'', ''float32'')
             else (device0, compute_type0))
      in then_do (load_model caps model_size device compute_type lang) (\<lambda>model.
         then_do (load_audio caps audio_path) (\<lambda>audio.
         then_do (model_transcribe caps audio batch_size lang) (\<lambda>result.
         then_do (getitem ''language'' (res_language result)) (\<lambda>language_code.
         then_do (load_align_model caps language_code device) (\<lambda>model_a.
         then_do (getitem ''segments'' (res_segments result)) (\<lambda>segs.
         then_do (align caps segs audio device) (\<lambda>result.
         then_do (processor_format result) (\<lambda>transcription.
           Inr (transcription,
                (case output_dir of
                   None \<Rightarrow> None
                 | Some d \<Rightarrow> if d \<noteq> [] then Some transcription else None)))))))))))"


subsection \<open>whisperx\_service.py\<close>

record service_args =
  sva_input :: string
  sva_output :: "string option"
  sva_model :: string
  sva_device :: string
  sva_language :: "string option"
  sva_no_diarization :: bool
  sva_min_speakers :: "int option"
  sva_max_speakers :: "int option"
  sva_hf_token :: "string option"

text \<open>The attributes of a \<^verbatim>\<open>WhisperXTranscriber\<close>; \<open>diarize_model\<close> tells whether
  \<^verbatim>\<open>self.diarize_model\<close> holds a pipeline rather than \<^verbatim>\<open>None\<close>.\<close>

record transcriber =
  device :: string
  compute_type :: string
  diarize_model :: bool

text \<open>\<^verbatim>\<open>WhisperXTranscriber.__init__\<close>.\<close>

definition service_init :: "capabilities \<Rightarrow> string \<Rightarrow> string \<Rightarrow> string \<Rightarrow> error + transcriber" where
  "service_init caps model_size device0 compute_type0 =
     (let dev = (if device0 = ''auto'' then (if cuda_available caps then ''cuda'' else ''cpu'')
                 else device0);
          ct = (if dev = ''cpu'' then ''int8'' else compute_type0)
      in then_do (load_model caps model_size dev ct None) (\<lambda>model.
           Inr \<lparr>device = dev, compute_type = ct, diarize_model = False\<rparr>))"

text \<open>\<^verbatim>\<open>not hf_token\<close>: \<^verbatim>\<open>None\<close> and the empty string are false.\<close>

definition falsy :: "string option \<Rightarrow> bool" where
  "falsy t = (case t of None \<Rightarrow> True | Some s \<Rightarrow> s = [])"

text \<open>\<^verbatim>\<open>WhisperXTranscriber.load_diarization_model\<close>: the transcriber afterwards, the
  returned flag, and the lines printed on standard error.\<close>

definition load_diarization_model ::
    "capabilities \<Rightarrow> transcriber \<Rightarrow> string option \<Rightarrow> transcriber \<times> bool \<times> string list" where
  "load_diarization_model caps self hf_token0 =
     (let hf_token = (if falsy hf_token0 then hf_token_env caps else hf_token0)
      in case hf_token of
           None \<Rightarrow>
             (self, False,
              [''Warning: No Hugging Face token provided. Speaker diarization will be disabled.''])
         | Some tok \<Rightarrow>
             if tok = [] then
               (self, False,
                [''Warning: No Hugging Face token provided. Speaker diarization will be disabled.''])
             else
               (case diarization_pipeline caps tok (device self) of
                  Inr pipeline \<Rightarrow>
                    (self\<lparr>diarize_model := True\<rparr>, True,
                     [''Loading speaker diarization model...''])
                | Inl e \<Rightarrow>
                    (self, False,
                     [''Loading speaker diarization model...'',
                      ''Failed to load diarization model: '' @ str_error e])))"

text \<open>\<^verbatim>\<open>WhisperXTranscriber.transcribe\<close>.\<close>

definition service_transcribe ::
    "capabilities \<Rightarrow> transcriber \<Rightarrow> string \<Rightarrow> string option \<Rightarrow> bool \<Rightarrow> int option \<Rightarrow> int option
       \<Rightarrow> error + document" where
  "service_transcribe caps self audio_path lang enable_diarization min_speakers max_speakers =
     then_do (load_audio caps audio_path) (\<lambda>audio.
     then_do (model_transcribe caps audio 16 lang) (\<lambda>result.
       (let detected_language = get_default (res_language result) ''unknown''
        in then_do (load_align_model caps detected_language (device self)) (\<lambda>model_a.
           then_do (getitem ''segments'' (res_segments result)) (\<lambda>segs.
           then_do (align caps segs audio (device self)) (\<lambda>aligned.
           then_do (if enable_diarization \<and> diarize_model self
                    then then_do (diarize caps audio min_speakers max_speakers) (\<lambda>diarize_segments.
                           assign_word_speakers caps diarize_segments aligned)
                    else Inr aligned) (\<lambda>result.
             service_format detected_language result)))))))"

text \<open>\<^verbatim>\<open>WhisperXTranscriber.process_file\<close>.\<close>

definition service_process_file ::
    "capabilities \<Rightarrow> transcriber \<Rightarrow> string \<Rightarrow> string option \<Rightarrow> bool \<Rightarrow> int option \<Rightarrow> int option
       \<Rightarrow> bool \<times> stdout_item list \<times> document option" where
  "service_process_file caps self input_path lang enable_diarization min_speakers max_speakers =
     (case service_transcribe caps self input_path lang enable_diarization min_speakers max_speakers of
        Inr result \<Rightarrow> (True, [Json_line result], Some result)
      | Inl e \<Rightarrow> (False, [Json_error_line (str_error e)], None))"

text \<open>\<^verbatim>\<open>main\<close> of \<^verbatim>\<open>whisperx_service.py\<close>.\<close>

definition service_main :: "capabilities \<Rightarrow> service_args \<Rightarrow> run" where
  "service_main caps args =
     (case service_init caps (sva_model args) (sva_device args) ''float16'' of
        Inl e \<Rightarrow> uncaught []
      | Inr transcriber0 \<Rightarrow>
          (case (if \<not> sva_no_diarization args
                 then load_diarization_model caps transcriber0 (sva_hf_token args)
                 else (transcriber0, False, [])) of
             (transcriber1, loaded, msgs) \<Rightarrow>
               (case service_process_file caps transcriber1 (sva_input args) (sva_language args)
                       (\<not> sva_no_diarization args) (sva_min_speakers args) (sva_max_speakers args) of
                  (success, printed, file) \<Rightarrow>
                    \<lparr>stdout = printed, exit_code = (if success then 0 else 1), out_file = file,
                     diarization_messages = msgs\<rparr>)))"

section \<open>Notions used to state the properties\<close>

text \<open>The elements of a list in the order of their first occurrence.\<close>

fun first_seen :: "'a list \<Rightarrow> 'a list" where
  "first_seen [] = []"
| "first_seen (x # xs) = x # filter (\<lambda>y. y \<noteq> x) (first_seen xs)"

text \<open>The speaker labels of the input segments, in input order, one per labelled segment.\<close>

fun speaker_ids :: "raw_segment list \<Rightarrow> string list" where
  "speaker_ids [] = []"
| "speaker_ids (s # ss) = (case rs_speaker s of None \<Rightarrow> speaker_ids ss | Some sid \<Rightarrow> sid # speaker_ids ss)"

text \<open>Well-typed input, as the data model of the specification has it: a segment has
  \<open>start\<close>, \<open>end\<close> and \<open>text\<close>; a word has \<open>word\<close>, \<open>start\<close> and \<open>end\<close>.\<close>

definition segment_ok :: "raw_segment \<Rightarrow> bool" where
  "segment_ok s = (rs_start s \<noteq> None \<and> rs_end s \<noteq> None \<and> rs_text s \<noteq> None)"

definition word_ok :: "raw_word \<Rightarrow> bool" where
  "word_ok w = (rw_word w \<noteq> None \<and> rw_start w \<noteq> None \<and> rw_end w \<noteq> None)"

definition words_ok :: "raw_segment \<Rightarrow> bool" where
  "words_ok s = (case rs_words s of None \<Rightarrow> True | Some ws \<Rightarrow> list_all word_ok ws)"

text \<open>An output segment carries the start, the end and the trimmed text of an input
  segment.\<close>

definition derived_from :: "raw_segment \<Rightarrow> segment \<Rightarrow> bool" where
  "derived_from s d =
     (rs_start s = Some (seg_start d) \<and> rs_end s = Some (seg_end d) \<and>
      map_option strip (rs_text s) = Some (seg_text d))"

subsection \<open>The loop of \<open>whisperx_service.py\<close>, one segment at a time\<close>

text \<open>
  The proofs about the loop of \<^verbatim>\<open>whisperx_service.py\<close> describe its two pieces of state
  separately: \<open>service_segment\<close> is the output segment of one input segment,
  \<open>track_segment\<close> is the update of \<^verbatim>\<open>speaker_stats\<close> by one input segment (for a segment
  that has \<open>start\<close> and \<open>end\<close>), \<open>track_all\<close> the updates by a list of segments.
  The lemma \<open>service_loop_Inr\<close> shows that the loop computes exactly these.
  \<open>lookup_stat\<close> reads an entry, a missing one read as the entry with zero counts.
\<close>

definition service_segment :: "raw_segment \<Rightarrow> error + segment" where
  "service_segment s =
     then_do (service_seg_data s) (\<lambda>d0. service_add_words s (d0\<lparr>seg_speaker := rs_speaker s\<rparr>))"

definition track_segment :: "raw_segment \<Rightarrow> speaker_stats \<Rightarrow> speaker_stats" where
  "track_segment s stats =
     (case rs_speaker s of
        None \<Rightarrow> stats
      | Some speaker_id \<Rightarrow> track_speaker speaker_id (the (rs_end s) - the (rs_start s)) stats)"

fun track_all :: "raw_segment list \<Rightarrow> speaker_stats \<Rightarrow> speaker_stats" where
  "track_all [] stats = stats"
| "track_all (s # ss) stats = track_all ss (track_segment s stats)"

definition lookup_stat :: "speaker_stats \<Rightarrow> string \<Rightarrow> speaker_stat" where
  "lookup_stat stats k =
     (case map_of stats k of
        None \<Rightarrow> \<lparr>st_id = k, st_segments = 0, st_total_duration = 0\<rparr>
      | Some e \<Rightarrow> e)"

definition carrying :: "string \<Rightarrow> raw_segment list \<Rightarrow> raw_segment list" where
  "carrying speaker_id segs = filter (\<lambda>s. rs_speaker s = Some speaker_id) segs"

definition raw_duration :: "raw_segment \<Rightarrow> real" where
  "raw_duration s = the (rs_end s) - the (rs_start s)"

subsection \<open>Example inputs\<close>

text \<open>Three segments with speaker labels, the first with a word list.\<close>

definition example_words :: "raw_word list" where
  "example_words =
     [\<lparr>rw_word = Some ''hi'', rw_start = Some 0, rw_end = Some (1 / 2), rw_probability = None,
       rw_confidence = None, rw_score = Some (9 / 10), rw_speaker = Some ''SPEAKER_00''\<rparr>,
      \<lparr>rw_word = Some ''all'', rw_start = Some (1 / 2), rw_end = Some 1,
       rw_probability = Some (3 / 4), rw_confidence = Some (1 / 4), rw_score = None,
       rw_speaker = None\<rparr>]"

definition diarized_segments :: "raw_segment list" where
  "diarized_segments =
     [\<lparr>rs_start = Some 0, rs_end = Some 1, rs_text = Some '' hi all '', rs_score = Some (9 / 10),
       rs_confidence = None, rs_words = Some example_words, rs_speaker = Some ''SPEAKER_00''\<rparr>,
      \<lparr>rs_start = Some 1, rs_end = Some 2, rs_text = Some ''there'', rs_score = Some (7 / 10),
       rs_confidence = None, rs_words = None, rs_speaker = Some ''SPEAKER_01''\<rparr>,
      \<lparr>rs_start = Some 2, rs_end = Some 4, rs_text = Some ''again'', rs_score = None,
       rs_confidence = Some (1 / 2), rs_words = None, rs_speaker = Some ''SPEAKER_00''\<rparr>]"

definition diarized_result :: raw_result where
  "diarized_result = \<lparr>res_language = Some ''en'', res_segments = Some diarized_segments\<rparr>"

text \<open>The two segments of the scenario of the specification, and an empty result.\<close>

definition scenario_segments :: "raw_segment list" where
  "scenario_segments =
     [\<lparr>rs_start = Some 0, rs_end = Some 1, rs_text = Some ''hi'', rs_score = Some (9 / 10),
       rs_confidence = None, rs_words = None, rs_speaker = None\<rparr>,
      \<lparr>rs_start = Some 1, rs_end = Some 2, rs_text = Some ''there'', rs_score = Some (7 / 10),
       rs_confidence = None, rs_words = None, rs_speaker = None\<rparr>]"

definition scenario_result :: raw_result where
  "scenario_result = \<lparr>res_language = Some ''en'', res_segments = Some scenario_segments\<rparr>"

definition empty_result :: raw_result where
  "empty_result = \<lparr>res_language = Some ''en'', res_segments = Some []\<rparr>"

text \<open>Libraries in which every call succeeds: \<^verbatim>\<open>whisper\<close> returns the three labelled
  segments, the recogniser of \<^verbatim>\<open>whisperx\<close> returns the two segments of the scenario, the
  alignment returns the segments it was given, the diarization assigns nothing. No token
  is set in the environment.\<close>

definition example_caps :: capabilities where
  "example_caps =
     \<lparr>cuda_available = False,
      hf_token_env = None,
      whisper_load_model = (\<lambda>model_size. Inr ()),
      whisper_transcribe = (\<lambda>audio_path lang. Inr diarized_result),
      load_model = (\<lambda>model_size dev ct lang. Inr ()),
      load_audio = (\<lambda>audio_path. Inr []),
      model_transcribe = (\<lambda>audio batch_size lang. Inr scenario_result),
      load_align_model = (\<lambda>language_code dev. Inr ()),
      align = (\<lambda>segs audio dev. Inr \<lparr>res_language = None, res_segments = Some segs\<rparr>),
      diarization_pipeline = (\<lambda>token dev. Inr ()),
      diarize = (\<lambda>audio min_speakers max_speakers. Inr []),
      assign_word_speakers = (\<lambda>diarize_segments result. Inr result)\<rparr>"

definition example_simple_args :: simple_args where
  "example_simple_args =
     \<lparr>sa_input = ''talk.wav'', sa_output = None, sa_model = ''base'', sa_language = None,
      sa_device = ''auto'', sa_no_diarization = False, sa_min_speakers = None,
      sa_max_speakers = None, sa_hf_token = None\<rparr>"


definition example_service_args :: service_args where
  "example_service_args =
     \<lparr>sva_input = ''talk.wav'', sva_output = None, sva_model = ''large-v2'',
      sva_device = ''auto'', sva_language = None, sva_no_diarization = False,
      sva_min_speakers = None, sva_max_speakers = None, sva_hf_token = None\<rparr>"




definition pipeline_failing_caps :: capabilities where
  "pipeline_failing_caps =
     example_caps\<lparr>hf_token_env := Some ''hf_token'',
       diarization_pipeline := (\<lambda>token dev. Inl (External ''unauthorized''))\<rparr>"

section \<open>The formatting loops\<close>

subsection \<open>Exceptions and dictionary access\<close>

lemma then_do_Inl [simp]: "then_do (Inl e) f = Inl e"
  by (simp add: then_do_def)

lemma then_do_Inr [simp]: "then_do (Inr x) f = f x"
  by (simp add: then_do_def)

lemma then_do_eq_Inr: "then_do m f = Inr y \<longleftrightarrow> (\<exists>x. m = Inr x \<and> f x = Inr y)"
  by (cases m) simp_all

lemma getitem_Some [simp]: "getitem k (Some x) = Inr x"
  by (simp add: getitem_def)

lemma getitem_None [simp]: "getitem k None = Inl (KeyError k)"
  by (simp add: getitem_def)

lemma get_default_simps [simp]: "get_default None d = d" "get_default (Some x) d = x"
  by (simp_all add: get_default_def)

subsection \<open>What the loops return\<close>

lemma simple_loop_Inr:
  "simple_loop ss out = Inr r \<longleftrightarrow> (\<exists>ds. r = out @ ds \<and> list_all2 (\<lambda>s d. simple_seg_data s = Inr d) ss ds)"
proof (induction ss arbitrary: out)
  case Nil
  show ?case by auto
next
  case (Cons s ss)
  show ?case
    by (auto simp: then_do_eq_Inr Cons.IH list_all2_Cons1)
qed

lemma processor_loop_Inr:
  "processor_loop ss out = Inr r \<longleftrightarrow>
     (\<exists>ds. r = out @ ds \<and> length ds = length ss \<and>
        (\<forall>i<length ss. processor_seg_data (length out + i) (ss ! i) = Inr (ds ! i)))"
proof (induction ss arbitrary: out)
  case Nil
  show ?case by auto
next
  case (Cons s ss)
  show ?case
  proof
    assume "processor_loop (s # ss) out = Inr r"
    then obtain d ds where d: "processor_seg_data (length out) s = Inr d"
      and r: "r = (out @ [d]) @ ds" and len: "length ds = length ss"
      and all: "\<forall>i<length ss. processor_seg_data (length (out @ [d]) + i) (ss ! i) = Inr (ds ! i)"
      by (auto simp: then_do_eq_Inr Cons.IH)
    have "\<forall>i<length (s # ss). processor_seg_data (length out + i) ((s # ss) ! i) = Inr ((d # ds) ! i)"
      using d all by (simp add: All_less_Suc2)
    with r len show "\<exists>ds. r = out @ ds \<and> length ds = length (s # ss) \<and>
        (\<forall>i<length (s # ss). processor_seg_data (length out + i) ((s # ss) ! i) = Inr (ds ! i))"
      by (intro exI [of _ "d # ds"]) simp
  next
    assume "\<exists>ds. r = out @ ds \<and> length ds = length (s # ss) \<and>
        (\<forall>i<length (s # ss). processor_seg_data (length out + i) ((s # ss) ! i) = Inr (ds ! i))"
    then obtain ds' where r: "r = out @ ds'" and len: "length ds' = Suc (length ss)"
      and all: "\<forall>i<Suc (length ss). processor_seg_data (length out + i) ((s # ss) ! i) = Inr (ds' ! i)"
      by auto
    from len obtain d ds where ds': "ds' = d # ds" and len': "length ds = length ss"
      by (auto simp: length_Suc_conv)
    from all have d: "processor_seg_data (length out) s = Inr d"
      and rest: "\<forall>i<length ss. processor_seg_data (length (out @ [d]) + i) (ss ! i) = Inr (ds ! i)"
      by (simp_all add: All_less_Suc2 ds')
    have "processor_loop ss (out @ [d]) = Inr r"
      unfolding Cons.IH using r ds' len' rest by (intro exI [of _ ds]) simp
    with d show "processor_loop (s # ss) out = Inr r"
      by simp
  qed
qed


lemma service_words_Inr:
  "service_words ws = Inr xs \<longleftrightarrow> list_all2 (\<lambda>w x. service_word w = Inr x) ws xs"
  by (induction ws arbitrary: xs) (auto simp: then_do_eq_Inr list_all2_Cons1)

lemma service_step:
  "service_seg_data s = Inr d0 \<Longrightarrow>
     service_add_speaker s d0 stats = (d0\<lparr>seg_speaker := rs_speaker s\<rparr>, track_segment s stats)"
  by (auto simp: service_seg_data_def service_add_speaker_def track_segment_def then_do_eq_Inr
      getitem_def split: option.splits)

lemma service_loop_Cons:
  "service_loop (s # ss) out stats =
     then_do (service_segment s) (\<lambda>d. service_loop ss (out @ [d]) (track_segment s stats))"
proof (cases "service_seg_data s")
  case (Inl e)
  then show ?thesis by (simp add: service_segment_def)
next
  case (Inr d0)
  then show ?thesis by (simp add: service_segment_def service_step)
qed

lemma service_loop_Inr:
  "service_loop ss out stats = Inr (r, stats') \<longleftrightarrow>
     (\<exists>ds. r = out @ ds \<and> list_all2 (\<lambda>s d. service_segment s = Inr d) ss ds \<and>
           stats' = track_all ss stats)"
proof (induction ss arbitrary: out stats)
  case Nil
  show ?case by auto
next
  case (Cons s ss)
  show ?case
    unfolding service_loop_Cons by (auto simp: then_do_eq_Inr Cons.IH list_all2_Cons1)
qed

subsection \<open>The speaker statistics\<close>

lemma keys_map_entry: "map fst (AList.map_entry k f xs) = map fst xs"
  by (induction xs) auto

lemma keys_track_speaker:
  "map fst (track_speaker k dur stats) =
     (if k \<in> set (map fst stats) then map fst stats else map fst stats @ [k])"
proof (cases "map_of stats k")
  case None
  then have "k \<notin> fst ` set stats" by (simp add: map_of_eq_None_iff)
  with None show ?thesis by (simp add: track_speaker_def keys_map_entry update_keys)
next
  case (Some e)
  then have "k \<in> fst ` set stats" by (metis map_of_eq_None_iff option.distinct(1))
  with Some show ?thesis by (simp add: track_speaker_def keys_map_entry)
qed

lemma lookup_track_speaker:
  "lookup_stat (track_speaker k dur stats) k' =
     (if k' = k
      then (lookup_stat stats k)\<lparr>st_segments := st_segments (lookup_stat stats k) + 1,
             st_total_duration := st_total_duration (lookup_stat stats k) + dur\<rparr>
      else lookup_stat stats k')"
  by (auto simp: track_speaker_def lookup_stat_def map_of_map_entry update_conv'
      split: option.splits)


lemma first_seen_set [simp]: "set (first_seen xs) = set xs"
  by (induction xs) auto

lemma first_seen_distinct [simp]: "distinct (first_seen xs)"
  by (induction xs) auto

lemma remdups_snoc: "remdups (ys @ [x]) = filter (\<lambda>y. y \<noteq> x) (remdups ys) @ [x]"
  by (induction ys) auto

lemma first_seen_remdups: "first_seen xs = rev (remdups (rev xs))"
  by (induction xs) (simp_all add: remdups_snoc rev_filter)


lemma keys_track_all:
  "map fst (track_all ss stats) =
     map fst stats @ filter (\<lambda>k. k \<notin> set (map fst stats)) (first_seen (speaker_ids ss))"
proof (induction ss arbitrary: stats)
  case Nil
  show ?case by simp
next
  case (Cons s ss)
  show ?case
  proof (cases "rs_speaker s")
    case None
    then show ?thesis by (simp add: Cons.IH track_segment_def)
  next
    case (Some k)
    then show ?thesis
      by (auto simp: Cons.IH track_segment_def keys_track_speaker intro: filter_cong)
  qed
qed

lemma lookup_track_all:
  "lookup_stat (track_all ss stats) k =
     (lookup_stat stats k)
       \<lparr>st_segments := st_segments (lookup_stat stats k) + length (carrying k ss),
        st_total_duration :=
          st_total_duration (lookup_stat stats k) + sum_list (map raw_duration (carrying k ss))\<rparr>"
proof (induction ss arbitrary: stats)
  case Nil
  show ?case by (simp add: carrying_def)
next
  case (Cons s ss)
  show ?case
    by (cases "rs_speaker s")
      (auto simp: Cons.IH track_segment_def lookup_track_speaker carrying_def raw_duration_def)
qed

lemma filter_eq_distinct:
  "distinct xs \<Longrightarrow> x \<in> set xs \<Longrightarrow> filter (\<lambda>k. k = x) xs = [x]"
  by (induction xs) (auto simp: filter_empty_conv)

lemma entries_track_all_Nil:
  assumes "(k, e) \<in> set (track_all ss [])"
  shows "e = \<lparr>st_id = k, st_segments = length (carrying k ss),
              st_total_duration = sum_list (map raw_duration (carrying k ss))\<rparr>"
proof -
  have "distinct (map fst (track_all ss []))"
    by (simp add: keys_track_all)
  with assms have "map_of (track_all ss []) k = Some e"
    by simp
  then have "e = lookup_stat (track_all ss []) k"
    by (simp add: lookup_stat_def)
  also have "lookup_stat [] k = \<lparr>st_id = k, st_segments = 0, st_total_duration = 0\<rparr>"
    by (simp add: lookup_stat_def)
  then have "lookup_stat (track_all ss []) k =
      \<lparr>st_id = k, st_segments = length (carrying k ss),
       st_total_duration = sum_list (map raw_duration (carrying k ss))\<rparr>"
    by (simp add: lookup_track_all)
  finally show ?thesis .
qed

lemma stats_track_all_Nil:
  "map snd (track_all ss []) =
     map (\<lambda>k. \<lparr>st_id = k, st_segments = length (carrying k ss),
                 st_total_duration = sum_list (map raw_duration (carrying k ss))\<rparr>)
       (first_seen (speaker_ids ss))"
proof -
  have "map snd (track_all ss []) =
          map (\<lambda>p. \<lparr>st_id = fst p, st_segments = length (carrying (fst p) ss),
                 st_total_duration = sum_list (map raw_duration (carrying (fst p) ss))\<rparr>)
            (track_all ss [])"
    by (rule map_cong [OF refl]) (use entries_track_all_Nil in force)
  also have "\<dots> = map (\<lambda>k. \<lparr>st_id = k, st_segments = length (carrying k ss),
                 st_total_duration = sum_list (map raw_duration (carrying k ss))\<rparr>)
       (map fst (track_all ss []))"
    by (simp add: comp_def)
  finally show ?thesis
    by (simp add: keys_track_all)
qed


subsection \<open>One segment\<close>

lemma list_all2_Inr_ex:
  "list_all (\<lambda>s. \<exists>d. f s = Inr d) ss \<Longrightarrow> \<exists>ds. list_all2 (\<lambda>s d. f s = Inr d) ss ds"
proof (induction ss)
  case Nil
  show ?case by simp
next
  case (Cons s ss)
  then obtain d ds where "f s = Inr d" and "list_all2 (\<lambda>s d. f s = Inr d) ss ds"
    by auto
  then have "list_all2 (\<lambda>s d. f s = Inr d) (s # ss) (d # ds)"
    by simp
  then show ?case ..
qed

lemma simple_seg_data_Inr:
  "simple_seg_data s = Inr d \<longleftrightarrow>
     segment_ok s \<and>
     d = \<lparr>seg_id = None, seg_start = the (rs_start s), seg_end = the (rs_end s),
          seg_text = strip (the (rs_text s)), seg_confidence = 1, seg_speaker = None,
          seg_words = (case rs_words s of None \<Rightarrow> No_words
                       | Some ws \<Rightarrow> Word_records (map simple_word ws))\<rparr>"
  by (cases "rs_start s"; cases "rs_end s"; cases "rs_text s")
    (auto simp: simple_seg_data_def segment_ok_def)

lemma processor_seg_data_Inr:
  "processor_seg_data n s = Inr d \<longleftrightarrow>
     segment_ok s \<and>
     d = \<lparr>seg_id = Some n, seg_start = the (rs_start s), seg_end = the (rs_end s),
          seg_text = strip (the (rs_text s)), seg_confidence = get_default (rs_score s) 0,
          seg_speaker = None, seg_words = Raw_words (get_default (rs_words s) [])\<rparr>"
  by (cases "rs_start s"; cases "rs_end s"; cases "rs_text s")
    (auto simp: processor_seg_data_def segment_ok_def)

lemma service_seg_data_Inr:
  "service_seg_data s = Inr d \<longleftrightarrow>
     segment_ok s \<and>
     d = \<lparr>seg_id = None, seg_start = the (rs_start s), seg_end = the (rs_end s),
          seg_text = strip (the (rs_text s)), seg_confidence = get_default (rs_confidence s) 1,
          seg_speaker = None, seg_words = No_words\<rparr>"
  by (cases "rs_start s"; cases "rs_end s"; cases "rs_text s")
    (auto simp: service_seg_data_def segment_ok_def)

lemma service_word_Inr:
  "service_word w = Inr x \<longleftrightarrow>
     word_ok w \<and>
     x = \<lparr>w_word = the (rw_word w), w_start = the (rw_start w), w_end = the (rw_end w),
          w_confidence = get_default (rw_confidence w) 1\<rparr>"
  by (cases "rw_word w"; cases "rw_start w"; cases "rw_end w")
    (auto simp: service_word_def word_ok_def)

lemma service_words_ok:
  "list_all word_ok ws \<Longrightarrow> \<exists>xs. service_words ws = Inr xs"
  unfolding service_words_Inr by (rule list_all2_Inr_ex) (simp add: service_word_Inr)

lemma service_segment_ok_ex:
  assumes "segment_ok s" and "words_ok s"
  shows "\<exists>d. service_segment s = Inr d"
proof (cases "rs_words s")
  case None
  with assms show ?thesis
    by (simp add: service_segment_def then_do_eq_Inr service_seg_data_Inr service_add_words_def)
next
  case (Some ws)
  with assms obtain xs where "service_words ws = Inr xs"
    using service_words_ok by (auto simp: words_ok_def)
  with assms Some show ?thesis
    by (simp add: service_segment_def then_do_eq_Inr service_seg_data_Inr service_add_words_def)
qed

lemma service_segment_fields:
  assumes "service_segment s = Inr d"
  shows "segment_ok s" and "seg_id d = None" and "seg_start d = the (rs_start s)"
    and "seg_end d = the (rs_end s)" and "seg_text d = strip (the (rs_text s))"
    and "seg_confidence d = get_default (rs_confidence s) 1"
    and "seg_speaker d = rs_speaker s"
    and "seg_words d =
           (case rs_words s of None \<Rightarrow> No_words
            | Some ws \<Rightarrow> (case service_words ws of Inr xs \<Rightarrow> Word_records xs | Inl e \<Rightarrow> No_words))"
  using assms
  by (auto simp: service_segment_def then_do_eq_Inr service_seg_data_Inr service_add_words_def
      split: option.splits)


subsection \<open>The documents\<close>

lemma simple_format_Inr:
  assumes "res_segments result = Some segs"
  shows "simple_format result = Inr doc \<longleftrightarrow>
     (\<exists>ds. list_all2 (\<lambda>s d. simple_seg_data s = Inr d) segs ds \<and>
        doc = \<lparr>language = get_default (res_language result) ''unknown'', segments = ds,
               speakers = Some [], confidence = None\<rparr>)"
  using assms by (auto simp: simple_format_def then_do_eq_Inr simple_loop_Inr)

lemma processor_format_Inr:
  assumes "res_segments result = Some segs"
  shows "processor_format result = Inr doc \<longleftrightarrow>
     (\<exists>ds. length ds = length segs \<and>
        (\<forall>i<length segs. processor_seg_data i (segs ! i) = Inr (ds ! i)) \<and>
        doc = \<lparr>language = get_default (res_language result) ''unknown'', segments = ds,
               speakers = None, confidence = Some (overall_confidence ds)\<rparr>)"
  using assms by (auto simp: processor_format_def then_do_eq_Inr processor_loop_Inr)

lemma service_format_Inr:
  assumes "res_segments result = Some segs"
  shows "service_format lang result = Inr doc \<longleftrightarrow>
     (\<exists>ds. list_all2 (\<lambda>s d. service_segment s = Inr d) segs ds \<and>
        doc = \<lparr>language = lang, segments = ds,
               speakers = Some (map snd (track_all segs [])), confidence = None\<rparr>)"
  using assms by (auto simp: service_format_def then_do_eq_Inr service_loop_Inr)

lemma simple_format_ok:
  assumes "res_segments result = Some segs" and "list_all segment_ok segs"
  shows "\<exists>doc. simple_format result = Inr doc"
proof -
  from assms(2) have "list_all (\<lambda>s. \<exists>d. simple_seg_data s = Inr d) segs"
    by (simp add: simple_seg_data_Inr)
  then obtain ds where "list_all2 (\<lambda>s d. simple_seg_data s = Inr d) segs ds"
    using list_all2_Inr_ex by blast
  then show ?thesis
    unfolding simple_format_Inr [OF assms(1)] by blast
qed

lemma processor_format_ok:
  assumes "res_segments result = Some segs" and "list_all segment_ok segs"
  shows "\<exists>doc. processor_format result = Inr doc"
proof -
  define ds where
    "ds = map (\<lambda>i. \<lparr>seg_id = Some i, seg_start = the (rs_start (segs ! i)),
          seg_end = the (rs_end (segs ! i)),
          seg_text = strip (the (rs_text (segs ! i))),
          seg_confidence = get_default (rs_score (segs ! i)) 0,
          seg_speaker = None, seg_words = Raw_words (get_default (rs_words (segs ! i)) [])\<rparr>)
       [0..<length segs]"
  have "length ds = length segs"
    by (simp add: ds_def)
  moreover have "\<forall>i<length segs. processor_seg_data i (segs ! i) = Inr (ds ! i)"
    using assms(2) by (simp add: ds_def processor_seg_data_Inr list_all_length)
  ultimately show ?thesis
    unfolding processor_format_Inr [OF assms(1)] by blast
qed

lemma service_format_ok:
  assumes "res_segments result = Some segs" and "list_all segment_ok segs"
    and "list_all words_ok segs"
  shows "\<exists>doc. service_format lang result = Inr doc"
proof -
  from assms(2,3) have "list_all (\<lambda>s. \<exists>d. service_segment s = Inr d) segs"
    by (simp add: list_all_iff service_segment_ok_ex)
  then obtain ds where "list_all2 (\<lambda>s d. service_segment s = Inr d) segs ds"
    using list_all2_Inr_ex by blast
  then show ?thesis
    unfolding service_format_Inr [OF assms(1)] by blast
qed

lemma set_speaker_ids: "k \<in> set (speaker_ids segs) \<longleftrightarrow> Some k \<in> set (map rs_speaker segs)"
  by (induction segs) (auto split: option.splits)

lemma simple_document:
  assumes "res_segments result = Some segs" and "list_all segment_ok segs"
  obtains doc where "simple_format result = Inr doc"
    and "length (segments doc) = length segs"
    and "\<And>i. i < length segs \<Longrightarrow> simple_seg_data (segs ! i) = Inr (segments doc ! i)"
    and "speakers doc = Some []" and "confidence doc = None"
proof -
  obtain doc where doc: "simple_format result = Inr doc"
    using simple_format_ok [OF assms] by blast
  then obtain ds where ds: "list_all2 (\<lambda>s d. simple_seg_data s = Inr d) segs ds"
    and eq: "doc = \<lparr>language = get_default (res_language result) ''unknown'', segments = ds,
               speakers = Some [], confidence = None\<rparr>"
    unfolding simple_format_Inr [OF assms(1)] by blast
  show thesis
  proof (rule that [OF doc])
    show "length (segments doc) = length segs"
      using ds eq by (simp add: list_all2_lengthD)
    show "simple_seg_data (segs ! i) = Inr (segments doc ! i)" if "i < length segs" for i
      using list_all2_nthD [OF ds that] eq by simp
  qed (simp_all add: eq)
qed

lemma processor_document:
  assumes "res_segments result = Some segs" and "list_all segment_ok segs"
  obtains doc where "processor_format result = Inr doc"
    and "length (segments doc) = length segs"
    and "\<And>i. i < length segs \<Longrightarrow> processor_seg_data i (segs ! i) = Inr (segments doc ! i)"
    and "speakers doc = None" and "confidence doc = Some (overall_confidence (segments doc))"
proof -
  obtain doc where doc: "processor_format result = Inr doc"
    using processor_format_ok [OF assms] by blast
  then obtain ds where len: "length ds = length segs"
    and ds: "\<forall>i<length segs. processor_seg_data i (segs ! i) = Inr (ds ! i)"
    and eq: "doc = \<lparr>language = get_default (res_language result) ''unknown'', segments = ds,
               speakers = None, confidence = Some (overall_confidence ds)\<rparr>"
    unfolding processor_format_Inr [OF assms(1)] by blast
  show thesis
  proof (rule that [OF doc])
    show "length (segments doc) = length segs"
      using len eq by simp
    show "processor_seg_data i (segs ! i) = Inr (segments doc ! i)" if "i < length segs" for i
      using ds that eq by simp
  qed (simp_all add: eq)
qed

lemma service_document:
  assumes "res_segments result = Some segs" and "list_all segment_ok segs"
    and "list_all words_ok segs"
  obtains doc where "service_format lang result = Inr doc"
    and "length (segments doc) = length segs"
    and "\<And>i. i < length segs \<Longrightarrow> service_segment (segs ! i) = Inr (segments doc ! i)"
    and "speakers doc = Some (map snd (track_all segs []))" and "confidence doc = None"
proof -
  obtain doc where doc: "service_format lang result = Inr doc"
    using service_format_ok [OF assms] by blast
  then obtain ds where ds: "list_all2 (\<lambda>s d. service_segment s = Inr d) segs ds"
    and eq: "doc = \<lparr>language = lang, segments = ds,
               speakers = Some (map snd (track_all segs [])), confidence = None\<rparr>"
    unfolding service_format_Inr [OF assms(1)] by blast
  show thesis
  proof (rule that [OF doc])
    show "length (segments doc) = length segs"
      using ds eq by (simp add: list_all2_lengthD)
    show "service_segment (segs ! i) = Inr (segments doc ! i)" if "i < length segs" for i
      using list_all2_nthD [OF ds that] eq by simp
  qed (simp_all add: eq)
qed

lemma derived_from_fields:
  assumes "segment_ok s" and "seg_start d = the (rs_start s)" and "seg_end d = the (rs_end s)"
    and "seg_text d = strip (the (rs_text s))"
  shows "derived_from s d"
  using assms by (auto simp: derived_from_def segment_ok_def)

lemma simple_order:
  assumes "res_segments result = Some segs" and "list_all segment_ok segs"
  shows "\<exists>doc. simple_format result = Inr doc \<and> length (segments doc) = length segs \<and>
           (\<forall>i<length segs. derived_from (segs ! i) (segments doc ! i))"
proof -
  obtain doc where doc: "simple_format result = Inr doc" "length (segments doc) = length segs"
    and nth: "\<And>i. i < length segs \<Longrightarrow> simple_seg_data (segs ! i) = Inr (segments doc ! i)"
    using simple_document [OF assms] by blast
  have "derived_from (segs ! i) (segments doc ! i)" if "i < length segs" for i
    using nth [OF that] unfolding simple_seg_data_Inr
    by (intro derived_from_fields) simp_all
  with doc show ?thesis by blast
qed

lemma processor_order:
  assumes "res_segments result = Some segs" and "list_all segment_ok segs"
  shows "\<exists>doc. processor_format result = Inr doc \<and> length (segments doc) = length segs \<and>
           (\<forall>i<length segs. derived_from (segs ! i) (segments doc ! i) \<and>
              seg_id (segments doc ! i) = Some i)"
proof -
  obtain doc where doc: "processor_format result = Inr doc" "length (segments doc) = length segs"
    and nth: "\<And>i. i < length segs \<Longrightarrow> processor_seg_data i (segs ! i) = Inr (segments doc ! i)"
    using processor_document [OF assms] by blast
  have "derived_from (segs ! i) (segments doc ! i) \<and> seg_id (segments doc ! i) = Some i"
    if "i < length segs" for i
  proof
    show "derived_from (segs ! i) (segments doc ! i)"
      using nth [OF that] unfolding processor_seg_data_Inr
      by (intro derived_from_fields) simp_all
    show "seg_id (segments doc ! i) = Some i"
      using nth [OF that] unfolding processor_seg_data_Inr by simp
  qed
  with doc show ?thesis by blast
qed

lemma service_order:
  assumes "res_segments result = Some segs" and "list_all segment_ok segs"
    and "list_all words_ok segs"
  shows "\<exists>doc sts. service_format lang result = Inr doc \<and>
           length (segments doc) = length segs \<and>
           (\<forall>i<length segs. derived_from (segs ! i) (segments doc ! i) \<and>
              seg_speaker (segments doc ! i) = rs_speaker (segs ! i)) \<and>
           speakers doc = Some sts \<and> map st_id sts = first_seen (speaker_ids segs)"
proof -
  obtain doc where doc: "service_format lang result = Inr doc"
      "length (segments doc) = length segs"
    and nth: "\<And>i. i < length segs \<Longrightarrow> service_segment (segs ! i) = Inr (segments doc ! i)"
    and sts: "speakers doc = Some (map snd (track_all segs []))"
    using service_document [OF assms] by blast
  have "derived_from (segs ! i) (segments doc ! i) \<and>
        seg_speaker (segments doc ! i) = rs_speaker (segs ! i)"
    if "i < length segs" for i
    using service_segment_fields [OF nth [OF that]] by (simp add: derived_from_fields)
  moreover have "map st_id (map snd (track_all segs [])) = first_seen (speaker_ids segs)"
    by (simp add: stats_track_all_Nil comp_def)
  ultimately show ?thesis
    using doc sts by blast
qed

subsection \<open>Trimming\<close>

lemma strip_decomp:
  "\<exists>pre post. t = pre @ strip t @ post \<and> list_all is_space pre \<and> list_all is_space post"
proof -
  define u where "u = dropWhile is_space t"
  have t: "t = takeWhile is_space t @ u"
    by (simp add: u_def)
  have "u = rev (dropWhile is_space (rev u)) @ rev (takeWhile is_space (rev u))"
    by (metis rev_append rev_rev_ident takeWhile_dropWhile_id)
  then have u: "u = strip t @ rev (takeWhile is_space (rev u))"
    by (simp add: strip_def u_def)
  have "list_all is_space (takeWhile is_space t)"
    by (simp add: list_all_iff) (meson set_takeWhileD)
  moreover have "list_all is_space (rev (takeWhile is_space (rev u)))"
    by (simp add: list_all_iff) (meson set_takeWhileD)
  moreover have "t = takeWhile is_space t @ strip t @ rev (takeWhile is_space (rev u))"
    using t u by simp
  ultimately show ?thesis by blast
qed

lemma strip_ends:
  assumes "strip t \<noteq> []"
  shows "\<not> is_space (hd (strip t))" and "\<not> is_space (last (strip t))"
proof -
  define u where "u = dropWhile is_space t"
  define v where "v = dropWhile is_space (rev u)"
  have st: "strip t = rev v"
    by (simp add: strip_def u_def v_def)
  with assms have v: "v \<noteq> []" by simp
  then have "\<not> is_space (hd v)"
    unfolding v_def by (rule hd_dropWhile)
  then show "\<not> is_space (last (strip t))"
    using v by (simp add: st last_rev)
  have "u = rev (dropWhile is_space (rev u)) @ rev (takeWhile is_space (rev u))"
    by (metis rev_append rev_rev_ident takeWhile_dropWhile_id)
  then have u: "u = strip t @ rev (takeWhile is_space (rev u))"
    by (simp add: st v_def)
  with assms have "u \<noteq> []" by auto
  then have "\<not> is_space (hd u)"
    unfolding u_def by (rule hd_dropWhile)
  moreover have "hd u = hd (strip t)"
    using u assms by (metis hd_append2)
  ultimately show "\<not> is_space (hd (strip t))" by simp
qed

lemma processor_confidences:
  assumes "res_segments result = Some segs" and "list_all segment_ok segs"
  shows "\<exists>doc. processor_format result = Inr doc \<and>
           map seg_confidence (segments doc) =
             map (\<lambda>s. case rs_score s of None \<Rightarrow> 0 | Some c \<Rightarrow> c) segs \<and>
           confidence doc = Some (overall_confidence (segments doc))"
proof -
  obtain doc where doc: "processor_format result = Inr doc"
    and len: "length (segments doc) = length segs"
    and nth: "\<And>i. i < length segs \<Longrightarrow> processor_seg_data i (segs ! i) = Inr (segments doc ! i)"
    and conf: "confidence doc = Some (overall_confidence (segments doc))"
    using processor_document [OF assms] by blast
  have "map seg_confidence (segments doc) =
          map (\<lambda>s. case rs_score s of None \<Rightarrow> 0 | Some c \<Rightarrow> c) segs"
  proof (rule nth_equalityI)
    show "length (map seg_confidence (segments doc)) =
            length (map (\<lambda>s. case rs_score s of None \<Rightarrow> 0 | Some c \<Rightarrow> c) segs)"
      by (simp add: len)
    show "map seg_confidence (segments doc) ! i =
            map (\<lambda>s. case rs_score s of None \<Rightarrow> 0 | Some c \<Rightarrow> c) segs ! i"
      if "i < length (map seg_confidence (segments doc))" for i
    proof -
      from that have i: "i < length segs" by (simp add: len)
      from nth [OF i] have "seg_confidence (segments doc ! i) = get_default (rs_score (segs ! i)) 0"
        by (simp add: processor_seg_data_Inr)
      with i show ?thesis by (simp add: len get_default_def)
    qed
  qed
  with doc conf show ?thesis by blast
qed

section \<open>The programs\<close>


lemma transcribe_audio_raises:
  fixes caps audio_path model_size lang device0 compute_type0 batch_size output_dir
  defines "dev \<equiv> (if device0 = ''cuda'' \<and> \<not> cuda_available caps then ''cpu'' else device0)"
    and "ct \<equiv> (if device0 = ''cuda'' \<and> \<not> cuda_available caps then ''float32'' else compute_type0)"
    and "run \<equiv> transcribe_audio caps audio_path model_size lang device0 compute_type0 batch_size
                 output_dir"
  shows "load_model caps model_size dev ct lang = Inl e \<Longrightarrow> run = Inl e"
    and "load_model caps model_size dev ct lang = Inr u \<Longrightarrow>
         load_audio caps audio_path = Inl e \<Longrightarrow> run = Inl e"
    and "load_model caps model_size dev ct lang = Inr u \<Longrightarrow>
         load_audio caps audio_path = Inr audio \<Longrightarrow>
         model_transcribe caps audio batch_size lang = Inl e \<Longrightarrow> run = Inl e"
    and "load_model caps model_size dev ct lang = Inr u \<Longrightarrow>
         load_audio caps audio_path = Inr audio \<Longrightarrow>
         model_transcribe caps audio batch_size lang = Inr result \<Longrightarrow>
         res_language result = Some language_code \<Longrightarrow>
         load_align_model caps language_code dev = Inl e \<Longrightarrow> run = Inl e"
    and "load_model caps model_size dev ct lang = Inr u \<Longrightarrow>
         load_audio caps audio_path = Inr audio \<Longrightarrow>
         model_transcribe caps audio batch_size lang = Inr result \<Longrightarrow>
         res_language result = Some language_code \<Longrightarrow>
         load_align_model caps language_code dev = Inr u' \<Longrightarrow>
         res_segments result = Some segs \<Longrightarrow>
         align caps segs audio dev = Inl e \<Longrightarrow> run = Inl e"
  by (auto simp: dev_def ct_def run_def transcribe_audio_def split: if_splits)

lemma service_transcribe_raises:
  fixes caps self audio_path lang enable_diarization min_speakers max_speakers
  defines "run \<equiv> service_transcribe caps self audio_path lang enable_diarization min_speakers
                   max_speakers"
  shows "load_audio caps audio_path = Inl e \<Longrightarrow> run = Inl e"
    and "load_audio caps audio_path = Inr audio \<Longrightarrow>
         model_transcribe caps audio 16 lang = Inl e \<Longrightarrow> run = Inl e"
    and "load_audio caps audio_path = Inr audio \<Longrightarrow>
         model_transcribe caps audio 16 lang = Inr result \<Longrightarrow>
         load_align_model caps (get_default (res_language result) ''unknown'') (device self) = Inl e \<Longrightarrow>
         run = Inl e"
    and "load_audio caps audio_path = Inr audio \<Longrightarrow>
         model_transcribe caps audio 16 lang = Inr result \<Longrightarrow>
         load_align_model caps (get_default (res_language result) ''unknown'') (device self) = Inr u \<Longrightarrow>
         res_segments result = Some segs \<Longrightarrow>
         align caps segs audio (device self) = Inl e \<Longrightarrow> run = Inl e"
    and "load_audio caps audio_path = Inr audio \<Longrightarrow>
         model_transcribe caps audio 16 lang = Inr result \<Longrightarrow>
         load_align_model caps (get_default (res_language result) ''unknown'') (device self) = Inr u \<Longrightarrow>
         res_segments result = Some segs \<Longrightarrow>
         align caps segs audio (device self) = Inr aligned \<Longrightarrow>
         enable_diarization \<Longrightarrow> diarize_model self \<Longrightarrow>
         diarize caps audio min_speakers max_speakers = Inl e \<Longrightarrow> run = Inl e"
    and "load_audio caps audio_path = Inr audio \<Longrightarrow>
         model_transcribe caps audio 16 lang = Inr result \<Longrightarrow>
         load_align_model caps (get_default (res_language result) ''unknown'') (device self) = Inr u \<Longrightarrow>
         res_segments result = Some segs \<Longrightarrow>
         align caps segs audio (device self) = Inr aligned \<Longrightarrow>
         enable_diarization \<Longrightarrow> diarize_model self \<Longrightarrow>
         diarize caps audio min_speakers max_speakers = Inr diarize_segments \<Longrightarrow>
         assign_word_speakers caps diarize_segments aligned = Inl e \<Longrightarrow> run = Inl e"
  by (simp_all add: run_def service_transcribe_def)

lemma service_transcribe_without_diarization:
  assumes "\<not> (enable_diarization \<and> diarize_model self)"
    and "load_audio caps audio_path = Inr audio"
    and "model_transcribe caps audio 16 lang = Inr result"
    and "load_align_model caps (get_default (res_language result) ''unknown'') (device self) = Inr u"
    and "res_segments result = Some segs"
    and "align caps segs audio (device self) = Inr aligned"
  shows "service_transcribe caps self audio_path lang enable_diarization min_speakers max_speakers =
           service_format (get_default (res_language result) ''unknown'') aligned"
  using assms by (auto simp: service_transcribe_def)

lemma service_init_no_pipeline:
  "service_init caps model_size device0 compute_type0 = Inr t \<Longrightarrow> \<not> diarize_model t"
  by (auto simp: service_init_def Let_def then_do_eq_Inr)

lemma load_diarization_model_no_token:
  assumes "falsy (if falsy hf_token0 then hf_token_env caps else hf_token0)"
  shows "load_diarization_model caps self hf_token0 =
           (self, False,
            [''Warning: No Hugging Face token provided. Speaker diarization will be disabled.''])"
  using assms by (auto simp: load_diarization_model_def falsy_def split: option.splits)

lemma load_diarization_model_fails:
  assumes "(if falsy hf_token0 then hf_token_env caps else hf_token0) = Some tok"
    and "tok \<noteq> []" and "diarization_pipeline caps tok (device self) = Inl e"
  shows "load_diarization_model caps self hf_token0 =
           (self, False,
            [''Loading speaker diarization model...'',
             ''Failed to load diarization model: '' @ str_error e])"
  using assms by (auto simp: load_diarization_model_def falsy_def split: option.splits)

section \<open>The properties of the specification\<close>

text \<open>
  C3. For every speaker id carried by a segment of the input, the speakers list of the
  document of \<^verbatim>\<open>whisperx_service.py\<close> has exactly one entry with that id; its segment
  count is the number of input segments carrying the id, and its total duration is the sum
  of \<open>end - start\<close> over those segments. The input is well typed: every segment has
  \<open>start\<close>, \<open>end\<close> and \<open>text\<close>, every word has \<open>word\<close>, \<open>start\<close> and \<open>end\<close>.
\<close>

theorem service_speaker_stats:
  assumes "res_segments result = Some segs"
    and "list_all segment_ok segs" and "list_all words_ok segs"
    and "Some speaker_id \<in> set (map rs_speaker segs)"
  shows "\<exists>doc sts. service_format lang result = Inr doc \<and> speakers doc = Some sts \<and>
           filter (\<lambda>e. st_id e = speaker_id) sts =
             [\<lparr>st_id = speaker_id,
               st_segments = length (filter (\<lambda>s. rs_speaker s = Some speaker_id) segs),
               st_total_duration =
                 sum_list (map (\<lambda>s. the (rs_end s) - the (rs_start s))
                            (filter (\<lambda>s. rs_speaker s = Some speaker_id) segs))\<rparr>]"
proof -
  obtain doc where doc: "service_format lang result = Inr doc"
    using service_format_ok [OF assms(1-3)] by blast
  then have sts: "speakers doc = Some (map snd (track_all segs []))"
    unfolding service_format_Inr [OF assms(1)] by auto
  have "filter (\<lambda>k. k = speaker_id) (first_seen (speaker_ids segs)) = [speaker_id]"
    using assms(4) by (intro filter_eq_distinct) (simp_all add: set_speaker_ids)
  then have "filter (\<lambda>e. st_id e = speaker_id) (map snd (track_all segs [])) =
      [\<lparr>st_id = speaker_id, st_segments = length (carrying speaker_id segs),
        st_total_duration = sum_list (map raw_duration (carrying speaker_id segs))\<rparr>]"
    by (simp add: stats_track_all_Nil filter_map comp_def)
  also have "raw_duration = (\<lambda>s. the (rs_end s) - the (rs_start s))"
    by (simp add: raw_duration_def fun_eq_iff)
  finally show ?thesis
    using doc sts by (simp add: carrying_def)
qed


theorem service_speaker_stats_witness:
  "res_segments diarized_result = Some diarized_segments \<and>
   list_all segment_ok diarized_segments \<and> list_all words_ok diarized_segments \<and>
   Some ''SPEAKER_00'' \<in> set (map rs_speaker diarized_segments) \<and>
   (\<exists>doc sts. service_format ''en'' diarized_result = Inr doc \<and> speakers doc = Some sts \<and>
      filter (\<lambda>e. st_id e = ''SPEAKER_00'') sts =
        [\<lparr>st_id = ''SPEAKER_00'', st_segments = 2, st_total_duration = 3\<rparr>])"
  using service_speaker_stats [of diarized_result diarized_segments "''SPEAKER_00''" "''en''"]
  by (simp add: diarized_result_def diarized_segments_def example_words_def segment_ok_def
      words_ok_def word_ok_def numeral_2_eq_2)


text \<open>
  C4. The segments of the output are in the order of the input: the document has as many
  segments as the input, and its \<open>i\<close>-th segment carries the start, the end and the
  trimmed text of the \<open>i\<close>-th input segment (in \<^verbatim>\<open>whisperx_processor.py\<close> also the
  index \<open>i\<close> as its id, in \<^verbatim>\<open>whisperx_service.py\<close> also its speaker). The speakers
  list of \<^verbatim>\<open>whisperx_service.py\<close> lists the speaker ids in the order of their first
  appearance in the input.
\<close>

theorem output_order:
  assumes "res_segments result = Some segs" and "list_all segment_ok segs"
  shows "(\<exists>doc. simple_format result = Inr doc \<and> length (segments doc) = length segs \<and>
            (\<forall>i<length segs. derived_from (segs ! i) (segments doc ! i))) \<and>
         (\<exists>doc. processor_format result = Inr doc \<and> length (segments doc) = length segs \<and>
            (\<forall>i<length segs. derived_from (segs ! i) (segments doc ! i) \<and>
               seg_id (segments doc ! i) = Some i)) \<and>
         (list_all words_ok segs \<longrightarrow>
            (\<exists>doc sts. service_format lang result = Inr doc \<and>
               length (segments doc) = length segs \<and>
               (\<forall>i<length segs. derived_from (segs ! i) (segments doc ! i) \<and>
                  seg_speaker (segments doc ! i) = rs_speaker (segs ! i)) \<and>
               speakers doc = Some sts \<and> map st_id sts = first_seen (speaker_ids segs)))"
  using simple_order [OF assms] processor_order [OF assms] service_order [OF assms]
  by blast

theorem output_order_witness:
  "res_segments diarized_result = Some diarized_segments \<and>
   list_all segment_ok diarized_segments \<and> list_all words_ok diarized_segments \<and>
   first_seen (speaker_ids diarized_segments) = [''SPEAKER_00'', ''SPEAKER_01''] \<and>
   (\<exists>doc. simple_format diarized_result = Inr doc \<and>
      length (segments doc) = length diarized_segments \<and>
      (\<forall>i<length diarized_segments. derived_from (diarized_segments ! i) (segments doc ! i))) \<and>
   (\<exists>doc. processor_format diarized_result = Inr doc \<and>
      length (segments doc) = length diarized_segments \<and>
      (\<forall>i<length diarized_segments. derived_from (diarized_segments ! i) (segments doc ! i) \<and>
         seg_id (segments doc ! i) = Some i)) \<and>
   (\<exists>doc sts. service_format ''en'' diarized_result = Inr doc \<and>
      length (segments doc) = length diarized_segments \<and>
      (\<forall>i<length diarized_segments. derived_from (diarized_segments ! i) (segments doc ! i) \<and>
         seg_speaker (segments doc ! i) = rs_speaker (diarized_segments ! i)) \<and>
      speakers doc = Some sts \<and> map st_id sts = [''SPEAKER_00'', ''SPEAKER_01''])"
proof -
  have res: "res_segments diarized_result = Some diarized_segments"
    by (simp add: diarized_result_def)
  have ok: "list_all segment_ok diarized_segments"
    by (simp add: diarized_segments_def segment_ok_def)
  have words: "list_all words_ok diarized_segments"
    by (simp add: diarized_segments_def example_words_def words_ok_def word_ok_def)
  have ids: "first_seen (speaker_ids diarized_segments) = [''SPEAKER_00'', ''SPEAKER_01'']"
    by (simp add: diarized_segments_def)
  show ?thesis
    using output_order [OF res ok, of "''en''"] res ok words unfolding ids by simp
qed


text \<open>
  C5. \<^verbatim>\<open>whisperx_service.py\<close> does not use the alignment score: for the two segments of
  the scenario, whose scores 0.9 and 0.7 are present, both output segments have
  confidence 1.
\<close>

theorem segment_confidence_counterexample:
  "map rs_score scenario_segments = [Some (9 / 10), Some (7 / 10)] \<and>
   service_format ''en'' scenario_result =
     Inr \<lparr>language = ''en'',
          segments =
            [\<lparr>seg_id = None, seg_start = 0, seg_end = 1, seg_text = ''hi'', seg_confidence = 1,
              seg_speaker = None, seg_words = No_words\<rparr>,
             \<lparr>seg_id = None, seg_start = 1, seg_end = 2, seg_text = ''there'',
              seg_confidence = 1, seg_speaker = None, seg_words = No_words\<rparr>],
          speakers = Some [], confidence = None\<rparr>"
  by (simp add: scenario_result_def scenario_segments_def service_format_def
      service_seg_data_def service_add_speaker_def service_add_words_def strip_def is_space_def)

text \<open>
  C5, as amended. Every script trims the text of every segment: what is removed at both
  ends is whitespace, and the trimmed text neither starts nor ends with whitespace. The
  segment confidence follows the script, there is no mode flag: \<^verbatim>\<open>whisper_simple.py\<close>
  sets it to 1 whatever the input holds; \<^verbatim>\<open>whisperx_processor.py\<close> uses the alignment
  \<open>score\<close> when it is present and 0 otherwise; \<^verbatim>\<open>whisperx_service.py\<close> uses the key
  \<open>confidence\<close> when it is present and 1 otherwise, and never the alignment score.
\<close>

theorem segment_text_and_confidence:
  assumes "res_segments result = Some segs" and "list_all segment_ok segs"
    and "i < length segs" and "rs_text (segs ! i) = Some t"
  shows "(\<exists>pre post. t = pre @ strip t @ post \<and> list_all is_space pre \<and> list_all is_space post) \<and>
         (strip t \<noteq> [] \<longrightarrow> \<not> is_space (hd (strip t)) \<and> \<not> is_space (last (strip t))) \<and>
         (\<exists>doc. simple_format result = Inr doc \<and> seg_text (segments doc ! i) = strip t \<and>
            seg_confidence (segments doc ! i) = 1) \<and>
         (\<exists>doc. processor_format result = Inr doc \<and> seg_text (segments doc ! i) = strip t \<and>
            seg_confidence (segments doc ! i) =
              (case rs_score (segs ! i) of None \<Rightarrow> 0 | Some c \<Rightarrow> c)) \<and>
         (list_all words_ok segs \<longrightarrow>
            (\<exists>doc. service_format lang result = Inr doc \<and>
               seg_text (segments doc ! i) = strip t \<and>
               seg_confidence (segments doc ! i) =
                 (case rs_confidence (segs ! i) of None \<Rightarrow> 1 | Some c \<Rightarrow> c)))"
proof (intro conjI impI)
  show "\<exists>pre post. t = pre @ strip t @ post \<and> list_all is_space pre \<and> list_all is_space post"
    by (rule strip_decomp)
  show "\<not> is_space (hd (strip t))" and "\<not> is_space (last (strip t))" if "strip t \<noteq> []"
    using strip_ends [OF that] by simp_all
  show "\<exists>doc. simple_format result = Inr doc \<and> seg_text (segments doc ! i) = strip t \<and>
          seg_confidence (segments doc ! i) = 1"
  proof -
    obtain doc where doc: "simple_format result = Inr doc"
      and nth: "\<And>i. i < length segs \<Longrightarrow> simple_seg_data (segs ! i) = Inr (segments doc ! i)"
      using simple_document [OF assms(1,2)] by blast
    from nth [OF assms(3)] assms(4) doc show ?thesis
      by (auto simp: simple_seg_data_Inr)
  qed
  show "\<exists>doc. processor_format result = Inr doc \<and> seg_text (segments doc ! i) = strip t \<and>
          seg_confidence (segments doc ! i) =
            (case rs_score (segs ! i) of None \<Rightarrow> 0 | Some c \<Rightarrow> c)"
  proof -
    obtain doc where doc: "processor_format result = Inr doc"
      and nth: "\<And>i. i < length segs \<Longrightarrow> processor_seg_data i (segs ! i) = Inr (segments doc ! i)"
      using processor_document [OF assms(1,2)] by blast
    from nth [OF assms(3)] assms(4) doc show ?thesis
      by (auto simp: processor_seg_data_Inr get_default_def)
  qed
  show "\<exists>doc. service_format lang result = Inr doc \<and> seg_text (segments doc ! i) = strip t \<and>
          seg_confidence (segments doc ! i) =
            (case rs_confidence (segs ! i) of None \<Rightarrow> 1 | Some c \<Rightarrow> c)"
    if words: "list_all words_ok segs"
  proof -
    obtain doc where doc: "service_format lang result = Inr doc"
      and nth: "\<And>i. i < length segs \<Longrightarrow> service_segment (segs ! i) = Inr (segments doc ! i)"
      using service_document [OF assms(1,2) words] by blast
    from service_segment_fields [OF nth [OF assms(3)]] assms(4) doc show ?thesis
      by (auto simp: get_default_def)
  qed
qed

theorem segment_text_and_confidence_witness:
  "res_segments diarized_result = Some diarized_segments \<and>
   list_all segment_ok diarized_segments \<and> list_all words_ok diarized_segments \<and>
   (0::nat) < length diarized_segments \<and>
   rs_text (diarized_segments ! 0) = Some '' hi all '' \<and> strip '' hi all '' = ''hi all'' \<and>
   (\<exists>doc. simple_format diarized_result = Inr doc \<and>
      seg_text (segments doc ! 0) = ''hi all'' \<and> seg_confidence (segments doc ! 0) = 1) \<and>
   (\<exists>doc. processor_format diarized_result = Inr doc \<and>
      seg_text (segments doc ! 0) = ''hi all'' \<and> seg_confidence (segments doc ! 0) = 9 / 10) \<and>
   (\<exists>doc. service_format ''en'' diarized_result = Inr doc \<and>
      seg_text (segments doc ! 0) = ''hi all'' \<and> seg_confidence (segments doc ! 0) = 1)"
proof -
  have res: "res_segments diarized_result = Some diarized_segments"
    by (simp add: diarized_result_def)
  have ok: "list_all segment_ok diarized_segments"
    by (simp add: diarized_segments_def segment_ok_def)
  have words: "list_all words_ok diarized_segments"
    by (simp add: diarized_segments_def example_words_def words_ok_def word_ok_def)
  have len: "0 < length diarized_segments"
    by (simp add: diarized_segments_def)
  have tx: "rs_text (diarized_segments ! 0) = Some '' hi all ''"
    by (simp add: diarized_segments_def)
  have score: "rs_score (diarized_segments ! 0) = Some (9 / 10)"
    and conf: "rs_confidence (diarized_segments ! 0) = None"
    by (simp_all add: diarized_segments_def)
  have strip: "strip '' hi all '' = ''hi all''"
    by (simp add: strip_def is_space_def)
  show ?thesis
    using segment_text_and_confidence [OF res ok len tx, of "''en''"] res ok words len tx
    unfolding strip score conf by simp
qed

text \<open>
  C6. On the diarized path the confidence of a word is not passed through: the first word
  of the first labelled segment has the alignment score 0.9 and no key \<open>confidence\<close>,
  and its word record in the document of \<^verbatim>\<open>whisperx_service.py\<close> has confidence 1.
\<close>

theorem word_confidence_counterexample:
  "rs_words (diarized_segments ! 0) = Some example_words \<and>
   rw_score (example_words ! 0) = Some (9 / 10) \<and>
   rw_confidence (example_words ! 0) = None \<and>
   (\<exists>doc. service_format ''en'' diarized_result = Inr doc \<and>
      seg_words (segments doc ! 0) =
        Word_records
          [\<lparr>w_word = ''hi'', w_start = 0, w_end = 1 / 2, w_confidence = 1\<rparr>,
           \<lparr>w_word = ''all'', w_start = 1 / 2, w_end = 1, w_confidence = 1 / 4\<rparr>])"
  by (simp add: diarized_result_def diarized_segments_def example_words_def service_format_def
      service_seg_data_def service_add_speaker_def service_add_words_def service_word_def
      track_speaker_def)

text \<open>
  C6, as amended. For a segment that carries a word list, \<^verbatim>\<open>whisper_simple.py\<close> builds
  one word record per word, in the order of the list, with the confidence taken from the
  key \<open>probability\<close> and 1 when it is missing; \<^verbatim>\<open>whisperx_service.py\<close>, the diarized
  path, builds one word record per word, in the order of the list, with the confidence
  taken from the key \<open>confidence\<close> and 1 when it is missing (the alignment score of the
  word is not read); \<^verbatim>\<open>whisperx_processor.py\<close> builds no word records and hands the
  word list of the library on as it is.
\<close>

theorem word_records:
  assumes "res_segments result = Some segs" and "list_all segment_ok segs"
    and "i < length segs" and "rs_words (segs ! i) = Some ws"
  shows "(\<exists>doc xs. simple_format result = Inr doc \<and>
            seg_words (segments doc ! i) = Word_records xs \<and> length xs = length ws \<and>
            (\<forall>j<length ws.
               w_word (xs ! j) = (case rw_word (ws ! j) of None \<Rightarrow> [] | Some x \<Rightarrow> x) \<and>
               w_start (xs ! j) = (case rw_start (ws ! j) of None \<Rightarrow> 0 | Some x \<Rightarrow> x) \<and>
               w_end (xs ! j) = (case rw_end (ws ! j) of None \<Rightarrow> 0 | Some x \<Rightarrow> x) \<and>
               w_confidence (xs ! j) =
                 (case rw_probability (ws ! j) of None \<Rightarrow> 1 | Some p \<Rightarrow> p))) \<and>
         (\<exists>doc. processor_format result = Inr doc \<and>
            seg_words (segments doc ! i) = Raw_words ws) \<and>
         (list_all words_ok segs \<longrightarrow>
            (\<exists>doc xs. service_format lang result = Inr doc \<and>
               seg_words (segments doc ! i) = Word_records xs \<and> length xs = length ws \<and>
               (\<forall>j<length ws.
                  rw_word (ws ! j) = Some (w_word (xs ! j)) \<and>
                  rw_start (ws ! j) = Some (w_start (xs ! j)) \<and>
                  rw_end (ws ! j) = Some (w_end (xs ! j)) \<and>
                  w_confidence (xs ! j) =
                    (case rw_confidence (ws ! j) of None \<Rightarrow> 1 | Some c \<Rightarrow> c))))"
proof (intro conjI impI)
  show "\<exists>doc xs. simple_format result = Inr doc \<and>
            seg_words (segments doc ! i) = Word_records xs \<and> length xs = length ws \<and>
            (\<forall>j<length ws.
               w_word (xs ! j) = (case rw_word (ws ! j) of None \<Rightarrow> [] | Some x \<Rightarrow> x) \<and>
               w_start (xs ! j) = (case rw_start (ws ! j) of None \<Rightarrow> 0 | Some x \<Rightarrow> x) \<and>
               w_end (xs ! j) = (case rw_end (ws ! j) of None \<Rightarrow> 0 | Some x \<Rightarrow> x) \<and>
               w_confidence (xs ! j) =
                 (case rw_probability (ws ! j) of None \<Rightarrow> 1 | Some p \<Rightarrow> p))"
  proof -
    obtain doc where doc: "simple_format result = Inr doc"
      and nth: "\<And>i. i < length segs \<Longrightarrow> simple_seg_data (segs ! i) = Inr (segments doc ! i)"
      using simple_document [OF assms(1,2)] by blast
    from nth [OF assms(3)] assms(4)
    have "seg_words (segments doc ! i) = Word_records (map simple_word ws)"
      by (auto simp: simple_seg_data_Inr)
    with doc show ?thesis
      by (intro exI [of _ doc] exI [of _ "map simple_word ws"])
        (simp add: simple_word_def get_default_def)
  qed
  show "\<exists>doc. processor_format result = Inr doc \<and> seg_words (segments doc ! i) = Raw_words ws"
  proof -
    obtain doc where doc: "processor_format result = Inr doc"
      and nth: "\<And>i. i < length segs \<Longrightarrow> processor_seg_data i (segs ! i) = Inr (segments doc ! i)"
      using processor_document [OF assms(1,2)] by blast
    from nth [OF assms(3)] assms(4) doc show ?thesis
      by (auto simp: processor_seg_data_Inr)
  qed
  show "\<exists>doc xs. service_format lang result = Inr doc \<and>
               seg_words (segments doc ! i) = Word_records xs \<and> length xs = length ws \<and>
               (\<forall>j<length ws.
                  rw_word (ws ! j) = Some (w_word (xs ! j)) \<and>
                  rw_start (ws ! j) = Some (w_start (xs ! j)) \<and>
                  rw_end (ws ! j) = Some (w_end (xs ! j)) \<and>
                  w_confidence (xs ! j) =
                    (case rw_confidence (ws ! j) of None \<Rightarrow> 1 | Some c \<Rightarrow> c))"
    if words: "list_all words_ok segs"
  proof -
    obtain doc where doc: "service_format lang result = Inr doc"
      and nth: "\<And>i. i < length segs \<Longrightarrow> service_segment (segs ! i) = Inr (segments doc ! i)"
      using service_document [OF assms(1,2) words] by blast
    from words assms(3,4) have "list_all word_ok ws"
      by (auto simp: list_all_length words_ok_def)
    then obtain xs where xs: "service_words ws = Inr xs"
      using service_words_ok by blast
    then have all2: "list_all2 (\<lambda>w x. service_word w = Inr x) ws xs"
      by (simp add: service_words_Inr)
    have "seg_words (segments doc ! i) = Word_records xs"
      using service_segment_fields(8) [OF nth [OF assms(3)]] assms(4) xs by simp
    moreover have "length xs = length ws"
      using all2 by (simp add: list_all2_lengthD)
    moreover have "rw_word (ws ! j) = Some (w_word (xs ! j)) \<and>
                  rw_start (ws ! j) = Some (w_start (xs ! j)) \<and>
                  rw_end (ws ! j) = Some (w_end (xs ! j)) \<and>
                  w_confidence (xs ! j) =
                    (case rw_confidence (ws ! j) of None \<Rightarrow> 1 | Some c \<Rightarrow> c)"
      if "j < length ws" for j
      using list_all2_nthD [OF all2 that]
      by (auto simp: service_word_Inr word_ok_def get_default_def)
    ultimately show ?thesis
      using doc by blast
  qed
qed

theorem word_records_witness:
  "res_segments diarized_result = Some diarized_segments \<and>
   list_all segment_ok diarized_segments \<and> list_all words_ok diarized_segments \<and>
   (0::nat) < length diarized_segments \<and> rs_words (diarized_segments ! 0) = Some example_words \<and>
   (\<exists>doc xs. simple_format diarized_result = Inr doc \<and>
      seg_words (segments doc ! 0) = Word_records xs \<and> length xs = length example_words \<and>
      w_confidence (xs ! 0) = 1 \<and> w_confidence (xs ! 1) = 3 / 4) \<and>
   (\<exists>doc. processor_format diarized_result = Inr doc \<and>
      seg_words (segments doc ! 0) = Raw_words example_words) \<and>
   (\<exists>doc xs. service_format ''en'' diarized_result = Inr doc \<and>
      seg_words (segments doc ! 0) = Word_records xs \<and> length xs = length example_words \<and>
      w_confidence (xs ! 0) = 1 \<and> w_confidence (xs ! 1) = 1 / 4)"
proof -
  have res: "res_segments diarized_result = Some diarized_segments"
    by (simp add: diarized_result_def)
  have ok: "list_all segment_ok diarized_segments"
    by (simp add: diarized_segments_def segment_ok_def)
  have words: "list_all words_ok diarized_segments"
    by (simp add: diarized_segments_def example_words_def words_ok_def word_ok_def)
  have len: "0 < length diarized_segments"
    by (simp add: diarized_segments_def)
  have ws: "rs_words (diarized_segments ! 0) = Some example_words"
    by (simp add: diarized_segments_def)
  have ex: "length example_words = 2"
      "rw_probability (example_words ! 0) = None"
      "rw_probability (example_words ! Suc 0) = Some (3 / 4)"
      "rw_confidence (example_words ! 0) = None"
      "rw_confidence (example_words ! Suc 0) = Some (1 / 4)"
    by (simp_all add: example_words_def)
  show ?thesis
    using word_records [OF res ok len ws, of "''en''"] res ok words len ws
    by (simp add: ex All_less_Suc numeral_2_eq_2) blast
qed


text \<open>
  C1. Only \<^verbatim>\<open>whisperx_processor.py\<close> computes a confidence for the whole document. For
  the two segments of the scenario, \<^verbatim>\<open>whisper_simple.py\<close> returns a document without the
  key \<open>confidence\<close> (while both of its segments have confidence 1).
\<close>

theorem confidence_mean_counterexample:
  "scenario_segments \<noteq> [] \<and>
   simple_format scenario_result =
     Inr \<lparr>language = ''en'',
          segments =
            [\<lparr>seg_id = None, seg_start = 0, seg_end = 1, seg_text = ''hi'', seg_confidence = 1,
              seg_speaker = None, seg_words = No_words\<rparr>,
             \<lparr>seg_id = None, seg_start = 1, seg_end = 2, seg_text = ''there'',
              seg_confidence = 1, seg_speaker = None, seg_words = No_words\<rparr>],
          speakers = Some [], confidence = None\<rparr>"
  by (simp add: scenario_result_def scenario_segments_def simple_format_def simple_seg_data_def
      strip_def is_space_def)

text \<open>
  C1, as amended. For every non-empty, well-typed input, the document of
  \<^verbatim>\<open>whisperx_processor.py\<close> has as its confidence the arithmetic mean of the confidences
  of its segments, which are the alignment scores of the input segments (0 where a segment
  has none). The documents of \<^verbatim>\<open>whisper_simple.py\<close> and \<^verbatim>\<open>whisperx_service.py\<close>
  have no key \<open>confidence\<close>.
\<close>

theorem processor_confidence_mean:
  assumes "res_segments result = Some segs" and "list_all segment_ok segs" and "segs \<noteq> []"
  shows "(\<exists>doc. processor_format result = Inr doc \<and>
            map seg_confidence (segments doc) =
              map (\<lambda>s. case rs_score s of None \<Rightarrow> 0 | Some c \<Rightarrow> c) segs \<and>
            confidence doc =
              Some (sum_list (map seg_confidence (segments doc)) / real (length (segments doc)))) \<and>
         (\<exists>doc. simple_format result = Inr doc \<and> confidence doc = None) \<and>
         (list_all words_ok segs \<longrightarrow>
            (\<exists>doc. service_format lang result = Inr doc \<and> confidence doc = None))"
proof (intro conjI impI)
  obtain doc where doc: "processor_format result = Inr doc"
    and confs: "map seg_confidence (segments doc) =
             map (\<lambda>s. case rs_score s of None \<Rightarrow> 0 | Some c \<Rightarrow> c) segs"
    and conf: "confidence doc = Some (overall_confidence (segments doc))"
    using processor_confidences [OF assms(1,2)] by blast
  from confs have "length (segments doc) = length segs"
    by (metis length_map)
  with assms(3) have "segments doc \<noteq> []" by auto
  with conf have "confidence doc =
      Some (sum_list (map seg_confidence (segments doc)) / real (length (segments doc)))"
    by (simp add: overall_confidence_def)
  with doc confs show "\<exists>doc. processor_format result = Inr doc \<and>
            map seg_confidence (segments doc) =
              map (\<lambda>s. case rs_score s of None \<Rightarrow> 0 | Some c \<Rightarrow> c) segs \<and>
            confidence doc =
              Some (sum_list (map seg_confidence (segments doc)) / real (length (segments doc)))"
    by blast
  show "\<exists>doc. simple_format result = Inr doc \<and> confidence doc = None"
    using simple_document [OF assms(1,2)] by metis
  show "\<exists>doc. service_format lang result = Inr doc \<and> confidence doc = None"
    if "list_all words_ok segs"
    using service_document [OF assms(1,2) that] by metis
qed

theorem processor_confidence_mean_witness:
  "res_segments diarized_result = Some diarized_segments \<and>
   list_all segment_ok diarized_segments \<and> list_all words_ok diarized_segments \<and>
   diarized_segments \<noteq> [] \<and>
   (\<exists>doc. processor_format diarized_result = Inr doc \<and>
      map seg_confidence (segments doc) = [9 / 10, 7 / 10, 0] \<and>
      confidence doc = Some (8 / 15)) \<and>
   (\<exists>doc. simple_format diarized_result = Inr doc \<and> confidence doc = None) \<and>
   (\<exists>doc. service_format ''en'' diarized_result = Inr doc \<and> confidence doc = None)"
proof -
  have res: "res_segments diarized_result = Some diarized_segments"
    by (simp add: diarized_result_def)
  have ok: "list_all segment_ok diarized_segments"
    by (simp add: diarized_segments_def segment_ok_def)
  have words: "list_all words_ok diarized_segments"
    by (simp add: diarized_segments_def example_words_def words_ok_def word_ok_def)
  have ne: "diarized_segments \<noteq> []"
    by (simp add: diarized_segments_def)
  have scores: "map (\<lambda>s. case rs_score s of None \<Rightarrow> 0 | Some c \<Rightarrow> c) diarized_segments =
      [9 / 10, 7 / 10, 0]"
    by (simp add: diarized_segments_def)
  obtain doc where doc: "processor_format diarized_result = Inr doc"
    and confs: "map seg_confidence (segments doc) = [9 / 10, 7 / 10, 0]"
    and conf: "confidence doc =
      Some (sum_list (map seg_confidence (segments doc)) / real (length (segments doc)))"
    using processor_confidence_mean [OF res ok ne, of "''en''"] unfolding scores by auto
  from confs have "length (segments doc) = 3"
    by (metis length_map length_Cons list.size(3) numeral_3_eq_3)
  with conf confs have "confidence doc = Some (8 / 15)"
    by simp
  with doc confs have "\<exists>doc. processor_format diarized_result = Inr doc \<and>
      map seg_confidence (segments doc) = [9 / 10, 7 / 10, 0] \<and>
      confidence doc = Some (8 / 15)"
    by (intro exI [of _ doc]) simp
  then show ?thesis
    using processor_confidence_mean [OF res ok ne, of "''en''"] res ok words ne by simp
qed

text \<open>
  C2. For an empty segment list, the document of \<^verbatim>\<open>whisperx_processor.py\<close> has
  confidence 0 and no segments but no key \<open>speakers\<close>; the documents of
  \<^verbatim>\<open>whisperx_service.py\<close> and \<^verbatim>\<open>whisper_simple.py\<close> have no segments and an empty
  speakers list but no key \<open>confidence\<close>. No script returns all three.
\<close>

theorem empty_input_counterexample:
  "processor_format empty_result =
     Inr \<lparr>language = ''en'', segments = [], speakers = None, confidence = Some 0\<rparr> \<and>
   service_format ''en'' empty_result =
     Inr \<lparr>language = ''en'', segments = [], speakers = Some [], confidence = None\<rparr> \<and>
   simple_format empty_result =
     Inr \<lparr>language = ''en'', segments = [], speakers = Some [], confidence = None\<rparr>"
  by (simp add: empty_result_def processor_format_def service_format_def simple_format_def
      overall_confidence_def)

text \<open>
  C2, as amended. For an empty segment list, whatever the language, the document of
  \<^verbatim>\<open>whisperx_processor.py\<close> has confidence exactly 0, an empty segments list and no
  speakers entry; the documents of \<^verbatim>\<open>whisperx_service.py\<close> and \<^verbatim>\<open>whisper_simple.py\<close>
  have an empty segments list, an empty speakers list and no confidence entry.
\<close>

theorem empty_input_documents:
  "(\<exists>doc. processor_format \<lparr>res_language = lang, res_segments = Some []\<rparr> = Inr doc \<and>
      confidence doc = Some 0 \<and> segments doc = [] \<and> speakers doc = None) \<and>
   (\<exists>doc. service_format detected_language \<lparr>res_language = lang, res_segments = Some []\<rparr> =
        Inr doc \<and>
      confidence doc = None \<and> segments doc = [] \<and> speakers doc = Some []) \<and>
   (\<exists>doc. simple_format \<lparr>res_language = lang, res_segments = Some []\<rparr> = Inr doc \<and>
      confidence doc = None \<and> segments doc = [] \<and> speakers doc = Some [])"
  by (simp add: processor_format_def service_format_def simple_format_def
      overall_confidence_def)

text \<open>
  C9. For the two segments of the scenario, \<^verbatim>\<open>whisperx_processor.py\<close> returns a document
  with confidence 0.8 that has no key \<open>speakers\<close>.
\<close>

theorem scenario_counterexample:
  "processor_format scenario_result =
     Inr \<lparr>language = ''en'',
          segments =
            [\<lparr>seg_id = Some 0, seg_start = 0, seg_end = 1, seg_text = ''hi'',
              seg_confidence = 9 / 10, seg_speaker = None, seg_words = Raw_words []\<rparr>,
             \<lparr>seg_id = Some 1, seg_start = 1, seg_end = 2, seg_text = ''there'',
              seg_confidence = 7 / 10, seg_speaker = None, seg_words = Raw_words []\<rparr>],
          speakers = None, confidence = Some (4 / 5)\<rparr>"
  by (simp add: scenario_result_def scenario_segments_def processor_format_def
      processor_seg_data_def overall_confidence_def strip_def is_space_def)

text \<open>
  C9, as amended. For the two segments of the scenario, the document of
  \<^verbatim>\<open>whisperx_processor.py\<close> has confidence 0.8 and no speakers entry; the documents of
  \<^verbatim>\<open>whisperx_service.py\<close> and \<^verbatim>\<open>whisper_simple.py\<close> have an empty speakers list, no
  confidence entry, and confidence 1 on both segments.
\<close>

theorem scenario_documents:
  "(\<exists>doc. processor_format scenario_result = Inr doc \<and>
      confidence doc = Some (4 / 5) \<and> speakers doc = None) \<and>
   (\<exists>doc. service_format ''en'' scenario_result = Inr doc \<and>
      confidence doc = None \<and> speakers doc = Some [] \<and>
      map seg_confidence (segments doc) = [1, 1]) \<and>
   (\<exists>doc. simple_format scenario_result = Inr doc \<and>
      confidence doc = None \<and> speakers doc = Some [] \<and>
      map seg_confidence (segments doc) = [1, 1])"
  by (simp add: scenario_result_def scenario_segments_def processor_format_def
      processor_seg_data_def overall_confidence_def service_format_def service_seg_data_def
      service_add_speaker_def service_add_words_def simple_format_def simple_seg_data_def)






text \<open>
  C8. In \<^verbatim>\<open>whisperx_service.py\<close>, with diarization requested, let the token be the one
  of the command line or else the one of the environment. When there is none, or when
  loading the diarization pipeline with it raises, and the other library calls succeed on
  well-typed data, the run ends with exit status 0: a warning was printed on standard
  error, the diarization is not run, and the document printed and written is the one
  assembled from the result of the alignment.
\<close>

theorem diarization_degrades:
  assumes "service_init caps (sva_model args) (sva_device args) ''float16'' = Inr t0"
    and "\<not> sva_no_diarization args"
    and "token = (if falsy (sva_hf_token args) then hf_token_env caps else sva_hf_token args)"
    and "falsy token \<or>
         (\<exists>tok e. token = Some tok \<and> diarization_pipeline caps tok (device t0) = Inl e)"
    and "load_audio caps (sva_input args) = Inr audio"
    and "model_transcribe caps audio 16 (sva_language args) = Inr result"
    and "lang = (case res_language result of None \<Rightarrow> ''unknown'' | Some l \<Rightarrow> l)"
    and "load_align_model caps lang (device t0) = Inr u"
    and "res_segments result = Some segs"
    and "align caps segs audio (device t0) = Inr aligned"
    and "res_segments aligned = Some aligned_segs"
    and "list_all segment_ok aligned_segs" and "list_all words_ok aligned_segs"
  shows "\<exists>doc msgs.
           service_main caps args =
             \<lparr>stdout = [Json_line doc], exit_code = 0, out_file = Some doc,
              diarization_messages = msgs\<rparr> \<and>
           service_format lang aligned = Inr doc \<and>
           (falsy token \<longrightarrow>
              msgs = [''Warning: No Hugging Face token provided. Speaker diarization will be disabled.'']) \<and>
           (\<forall>tok e. token = Some tok \<and> tok \<noteq> [] \<and>
                diarization_pipeline caps tok (device t0) = Inl e \<longrightarrow>
              msgs = [''Loading speaker diarization model...'',
                      ''Failed to load diarization model: '' @ str_error e])"
proof -
  have lang: "lang = get_default (res_language result) ''unknown''"
    using assms(7) by (simp add: get_default_def)
  obtain doc where doc: "service_format lang aligned = Inr doc"
    using service_format_ok [OF assms(11-13)] by blast
  have off: "\<not> diarize_model t0"
    using assms(1) by (rule service_init_no_pipeline)
  then have run: "service_transcribe caps t0 (sva_input args) (sva_language args)
      (\<not> sva_no_diarization args) (sva_min_speakers args) (sva_max_speakers args) = Inr doc"
    using service_transcribe_without_diarization [of "\<not> sva_no_diarization args" t0 caps
        "sva_input args" audio "sva_language args" result u segs aligned]
      assms(5,6,8-10) doc
    by (simp add: lang)
  obtain msgs where load: "load_diarization_model caps t0 (sva_hf_token args) = (t0, False, msgs)"
    and none: "falsy token \<longrightarrow>
        msgs = [''Warning: No Hugging Face token provided. Speaker diarization will be disabled.'']"
    and fails: "\<forall>tok e. token = Some tok \<and> tok \<noteq> [] \<and>
                diarization_pipeline caps tok (device t0) = Inl e \<longrightarrow>
              msgs = [''Loading speaker diarization model...'',
                      ''Failed to load diarization model: '' @ str_error e]"
  proof (cases "falsy token")
    case True
    then have "load_diarization_model caps t0 (sva_hf_token args) =
        (t0, False,
         [''Warning: No Hugging Face token provided. Speaker diarization will be disabled.''])"
      unfolding assms(3) by (rule load_diarization_model_no_token)
    moreover from True have "\<not> (token = Some tok \<and> tok \<noteq> [])" for tok
      by (auto simp: falsy_def)
    ultimately show ?thesis
      by (intro that) auto
  next
    case False
    with assms(4) obtain tok e where tok: "token = Some tok"
      and e: "diarization_pipeline caps tok (device t0) = Inl e"
      by blast
    from False tok have ne: "tok \<noteq> []"
      by (simp add: falsy_def)
    have "load_diarization_model caps t0 (sva_hf_token args) =
        (t0, False,
         [''Loading speaker diarization model...'',
          ''Failed to load diarization model: '' @ str_error e])"
      using tok ne e unfolding assms(3) by (intro load_diarization_model_fails) simp_all
    with False tok e show ?thesis
      by (intro that) auto
  qed
  have "service_main caps args =
      \<lparr>stdout = [Json_line doc], exit_code = 0, out_file = Some doc,
       diarization_messages = msgs\<rparr>"
    using assms(1,2) load run by (simp add: service_main_def service_process_file_def)
  with doc none fails show ?thesis
    by blast
qed

theorem diarization_degrades_witness:
  "(\<exists>doc. service_main example_caps example_service_args =
       \<lparr>stdout = [Json_line doc], exit_code = 0, out_file = Some doc,
        diarization_messages =
          [''Warning: No Hugging Face token provided. Speaker diarization will be disabled.'']\<rparr> \<and>
     service_format ''en'' \<lparr>res_language = None, res_segments = Some scenario_segments\<rparr> =
       Inr doc) \<and>
   (\<exists>doc. service_main pipeline_failing_caps example_service_args =
       \<lparr>stdout = [Json_line doc], exit_code = 0, out_file = Some doc,
        diarization_messages =
          [''Loading speaker diarization model...'',
           ''Failed to load diarization model: unauthorized'']\<rparr> \<and>
     service_format ''en'' \<lparr>res_language = None, res_segments = Some scenario_segments\<rparr> =
       Inr doc)"
proof
  define t0 where "t0 = \<lparr>device = ''cpu'', compute_type = ''int8'', diarize_model = False\<rparr>"
  define aligned where
    "aligned = \<lparr>res_language = None, res_segments = Some scenario_segments\<rparr>"
  have ok: "list_all segment_ok scenario_segments" "list_all words_ok scenario_segments"
    by (simp_all add: scenario_segments_def segment_ok_def words_ok_def)
  have lang: "''en'' = (case res_language scenario_result of None \<Rightarrow> ''unknown'' | Some l \<Rightarrow> l)"
    by (simp add: scenario_result_def)
  have segs: "res_segments scenario_result = Some scenario_segments"
    "res_segments aligned = Some scenario_segments"
    by (simp_all add: scenario_result_def aligned_def)
  have on: "\<not> sva_no_diarization example_service_args"
    by (simp add: example_service_args_def)
  show "\<exists>doc. service_main example_caps example_service_args =
       \<lparr>stdout = [Json_line doc], exit_code = 0, out_file = Some doc,
        diarization_messages =
          [''Warning: No Hugging Face token provided. Speaker diarization will be disabled.'']\<rparr> \<and>
     service_format ''en'' \<lparr>res_language = None, res_segments = Some scenario_segments\<rparr> =
       Inr doc"
  proof -
    have init: "service_init example_caps (sva_model example_service_args)
        (sva_device example_service_args) ''float16'' = Inr t0"
      by (simp add: service_init_def example_caps_def example_service_args_def t0_def)
    have token: "None = (if falsy (sva_hf_token example_service_args)
        then hf_token_env example_caps else sva_hf_token example_service_args)"
      by (simp add: example_caps_def example_service_args_def falsy_def)
    have absent: "falsy None \<or>
        (\<exists>tok e. None = Some tok \<and> diarization_pipeline example_caps tok (device t0) = Inl e)"
      by (simp add: falsy_def)
    have calls: "load_audio example_caps (sva_input example_service_args) = Inr []"
      "model_transcribe example_caps [] 16 (sva_language example_service_args) =
         Inr scenario_result"
      "load_align_model example_caps ''en'' (device t0) = Inr ()"
      "align example_caps scenario_segments [] (device t0) = Inr aligned"
      by (simp_all add: example_caps_def aligned_def)
    from diarization_degrades [OF init on token absent calls(1,2) lang calls(3) segs(1)
        calls(4) segs(2) ok]
    show ?thesis
      by (auto simp: falsy_def aligned_def)
  qed
  show "\<exists>doc. service_main pipeline_failing_caps example_service_args =
       \<lparr>stdout = [Json_line doc], exit_code = 0, out_file = Some doc,
        diarization_messages =
          [''Loading speaker diarization model...'',
           ''Failed to load diarization model: unauthorized'']\<rparr> \<and>
     service_format ''en'' \<lparr>res_language = None, res_segments = Some scenario_segments\<rparr> =
       Inr doc"
  proof -
    have init: "service_init pipeline_failing_caps (sva_model example_service_args)
        (sva_device example_service_args) ''float16'' = Inr t0"
      by (simp add: service_init_def pipeline_failing_caps_def example_caps_def
          example_service_args_def t0_def)
    have token: "Some ''hf_token'' = (if falsy (sva_hf_token example_service_args)
        then hf_token_env pipeline_failing_caps else sva_hf_token example_service_args)"
      by (simp add: pipeline_failing_caps_def example_caps_def example_service_args_def falsy_def)
    have e: "diarization_pipeline pipeline_failing_caps ''hf_token'' (device t0) =
        Inl (External ''unauthorized'')"
      by (simp add: pipeline_failing_caps_def example_caps_def)
    then have absent: "falsy (Some ''hf_token'') \<or>
        (\<exists>tok e. Some ''hf_token'' = Some tok \<and>
           diarization_pipeline pipeline_failing_caps tok (device t0) = Inl e)"
      by blast
    have calls: "load_audio pipeline_failing_caps (sva_input example_service_args) = Inr []"
      "model_transcribe pipeline_failing_caps [] 16 (sva_language example_service_args) =
         Inr scenario_result"
      "load_align_model pipeline_failing_caps ''en'' (device t0) = Inr ()"
      "align pipeline_failing_caps scenario_segments [] (device t0) = Inr aligned"
      by (simp_all add: pipeline_failing_caps_def example_caps_def aligned_def)
    from diarization_degrades [OF init on token absent calls(1,2) lang calls(3) segs(1)
        calls(4) segs(2) ok]
    obtain doc msgs where main: "service_main pipeline_failing_caps example_service_args =
             \<lparr>stdout = [Json_line doc], exit_code = 0, out_file = Some doc,
              diarization_messages = msgs\<rparr>"
      and doc: "service_format ''en'' aligned = Inr doc"
      and msgs: "\<forall>tok e. Some ''hf_token'' = Some tok \<and> tok \<noteq> [] \<and>
                diarization_pipeline pipeline_failing_caps tok (device t0) = Inl e \<longrightarrow>
              msgs = [''Loading speaker diarization model...'',
                      ''Failed to load diarization model: '' @ str_error e]"
      by blast
    from msgs e have "msgs = [''Loading speaker diarization model...'',
        ''Failed to load diarization model: '' @ str_error (External ''unauthorized'')]"
      by blast
    with main doc show ?thesis
      by (simp add: aligned_def)
  qed
qed


text \<open>
  C10. In \<^verbatim>\<open>whisper_simple.py\<close> every document returned by \<^verbatim>\<open>transcribe\<close>, and so
  every document the program prints or writes, has an empty speakers list, also when the
  segments of the recogniser carry speaker labels; and the run does not depend on the
  options \<^verbatim>\<open>--device\<close>, \<^verbatim>\<open>--no-diarization\<close>, \<^verbatim>\<open>--min-speakers\<close>,
  \<^verbatim>\<open>--max-speakers\<close> and \<^verbatim>\<open>--hf-token\<close>.
\<close>

theorem simple_speakers_always_empty:
  "simple_main caps
     (args\<lparr>sa_device := dev, sa_no_diarization := no_diarization, sa_min_speakers := min_speakers,
           sa_max_speakers := max_speakers, sa_hf_token := hf_token\<rparr>) =
     simple_main caps args \<and>
   (\<forall>doc. simple_transcribe caps audio_path lang = Inr doc \<longrightarrow> speakers doc = Some []) \<and>
   (\<forall>doc. out_file (simple_main caps args) = Some doc \<longrightarrow> speakers doc = Some []) \<and>
   (\<forall>doc. Json_line doc \<in> set (stdout (simple_main caps args)) \<longrightarrow> speakers doc = Some [])"
proof -
  have format: "speakers doc = Some []" if "simple_format result = Inr doc" for result doc
    using that by (auto simp: simple_format_def Let_def then_do_eq_Inr)
  have transcribe: "speakers doc = Some []" if "simple_transcribe caps p l = Inr doc" for p l doc
    using that format by (auto simp: simple_transcribe_def then_do_eq_Inr)
  have written: "speakers doc = Some []" if "out_file (simple_main caps args) = Some doc" for doc
    using that transcribe [of "sa_input args" "sa_language args"]
    by (auto simp: simple_main_def simple_process_file_def uncaught_def split: sum.splits)
  have printed: "speakers doc = Some []"
    if "Json_line doc \<in> set (stdout (simple_main caps args))" for doc
    using that transcribe [of "sa_input args" "sa_language args"]
    by (auto simp: simple_main_def simple_process_file_def uncaught_def split: sum.splits)
  have "simple_main caps
     (args\<lparr>sa_device := dev, sa_no_diarization := no_diarization, sa_min_speakers := min_speakers,
           sa_max_speakers := max_speakers, sa_hf_token := hf_token\<rparr>) =
     simple_main caps args"
    by (cases "simple_init caps (sa_model args)") (simp_all add: simple_main_def)
  with transcribe written printed show ?thesis
    by blast
qed

theorem simple_speakers_always_empty_witness:
  "Some ''SPEAKER_00'' \<in> set (map rs_speaker diarized_segments) \<and>
   (\<exists>doc. simple_main example_caps example_simple_args =
      \<lparr>stdout = [Json_line doc], exit_code = 0, out_file = Some doc,
       diarization_messages = []\<rparr> \<and>
      speakers doc = Some []) \<and>
   simple_main example_caps
     (example_simple_args\<lparr>sa_device := ''cuda'', sa_no_diarization := True,
        sa_min_speakers := Some 2, sa_max_speakers := Some 4, sa_hf_token := Some ''hf_token''\<rparr>) =
     simple_main example_caps example_simple_args"
proof -
  have labels: "Some ''SPEAKER_00'' \<in> set (map rs_speaker diarized_segments)"
    by (simp add: diarized_segments_def)
  have res: "res_segments diarized_result = Some diarized_segments"
    by (simp add: diarized_result_def)
  have ok: "list_all segment_ok diarized_segments"
    by (simp add: diarized_segments_def segment_ok_def)
  obtain doc where doc: "simple_format diarized_result = Inr doc"
    using simple_format_ok [OF res ok] by blast
  then have main: "simple_main example_caps example_simple_args =
      \<lparr>stdout = [Json_line doc], exit_code = 0, out_file = Some doc,
       diarization_messages = []\<rparr>"
    by (simp add: simple_main_def simple_init_def simple_process_file_def simple_transcribe_def
        example_caps_def example_simple_args_def)
  note inst = simple_speakers_always_empty [where caps = example_caps
      and args = example_simple_args and dev = "''cuda''" and no_diarization = True
      and min_speakers = "Some 2" and max_speakers = "Some 4" and hf_token = "Some ''hf_token''"
      and audio_path = "''talk.wav''" and lang = None]
  from inst main have "speakers doc = Some []"
    by simp
  with main inst labels show ?thesis
    by simp
qed

end
